theory Spec2Isabelle
  imports Main "HOL-Library.Word" "HOL-Library.AList" "HOL-Library.List_Lexorder"
begin

section \<open>Python values\<close>

text \<open>
  A Python \<open>str\<close> is a sequence of Unicode code points; \<open>len\<close> counts code points and
  the store orders sort keys by their UTF-8 bytes, which is the lexicographic order of the
  code points. A literal of the source is written \<open>ustr ''...''\<close>.
\<close>

type_synonym pystr = "nat list"

type_synonym pybytes = "8 word list"

definition ustr :: "string \<Rightarrow> pystr" where
  "ustr s = map of_char s"

text \<open>
  The values \<open>json.loads\<close> produces and \<open>json.dumps\<close> accepts: \<open>None\<close>, \<open>bool\<close>,
  \<open>int\<close>, \<open>float\<close> (its 64 bits), \<open>str\<close>, \<open>list\<close> and \<open>dict\<close> (the items in
  insertion order, the keys distinct). The Lambda event and the handlers' return values are
  such dicts.
\<close>

datatype json =
    JNull
  | JBool bool
  | JInt int
  | JFloat "64 word"
  | JStr pystr
  | JList "json list"
  | JObj "(pystr \<times> json) list"

text \<open>
  Exceptions. \<open>JSONDecodeError\<close>, \<open>BinasciiError\<close> (\<open>binascii.Error\<close>) and
  \<open>UnicodeDecodeError\<close> are subclasses of \<open>ValueError\<close>; \<open>RecursionError\<close> is what
  \<open>json.loads\<close> raises on a text nested too deeply, and is not one; \<open>ServiceError\<close>
  stands for whatever a boto3 call raises (a \<open>ClientError\<close>, a timeout), named by its
  message. All of them are subclasses of \<open>Exception\<close>.
\<close>

datatype exn =
    AttributeError
  | TypeError
  | IndexError
  | ValueError
  | JSONDecodeError
  | BinasciiError
  | UnicodeDecodeError
  | RecursionError
  | ServiceError pystr

text \<open>\<open>except (json.JSONDecodeError, ValueError)\<close>: what the clause catches.\<close>

fun is_ValueError :: "exn \<Rightarrow> bool" where
  "is_ValueError ValueError = True"
| "is_ValueError JSONDecodeError = True"
| "is_ValueError BinasciiError = True"
| "is_ValueError UnicodeDecodeError = True"
| "is_ValueError _ = False"

text \<open>\<open>d.get(k, dflt)\<close>: only a dict has the attribute \<open>get\<close>.\<close>

definition dict_get :: "json \<Rightarrow> pystr \<Rightarrow> json \<Rightarrow> exn + json" where
  "dict_get d k dflt =
     (case d of
        JObj kvs \<Rightarrow> Inr (case map_of kvs k of Some v \<Rightarrow> v | None \<Rightarrow> dflt)
      | _ \<Rightarrow> Inl AttributeError)"

text \<open>Truth value of an object in \<open>if x:\<close>. A float is false when it is \<open>0.0\<close> or \<open>-0.0\<close>.\<close>

fun truthy :: "json \<Rightarrow> bool" where
  "truthy JNull = False"
| "truthy (JBool b) = b"
| "truthy (JInt n) = (n \<noteq> 0)"
| "truthy (JFloat f) = (f \<noteq> 0 \<and> f \<noteq> 0x8000000000000000)"
| "truthy (JStr s) = (s \<noteq> [])"
| "truthy (JList xs) = (xs \<noteq> [])"
| "truthy (JObj kvs) = (kvs \<noteq> [])"

text \<open>
  \<open>str.strip()\<close> removes leading and trailing whitespace: the code points for which
  \<open>str.isspace\<close> holds.
\<close>

definition is_space :: "nat \<Rightarrow> bool" where
  "is_space c =
     ((0x09 \<le> c \<and> c \<le> 0x0D) \<or> (0x1C \<le> c \<and> c \<le> 0x20) \<or> c = 0x85 \<or> c = 0xA0
      \<or> c = 0x1680 \<or> (0x2000 \<le> c \<and> c \<le> 0x200A) \<or> c = 0x2028 \<or> c = 0x2029
      \<or> c = 0x202F \<or> c = 0x205F \<or> c = 0x3000)"

definition strip :: "pystr \<Rightarrow> pystr" where
  "strip s = rev (dropWhile is_space (rev (dropWhile is_space s)))"

text \<open>\<open>x.strip()\<close> on a value: only a \<open>str\<close> has the attribute.\<close>

definition str_strip :: "json \<Rightarrow> exn + pystr" where
  "str_strip x = (case x of JStr s \<Rightarrow> Inr (strip s) | _ \<Rightarrow> Inl AttributeError)"

section \<open>The runtime: library functions and configuration\<close>

text \<open>
  The handlers call the standard library (\<open>base64\<close>, \<open>json\<close>) and read \<open>os.environ\<close>.
  The library functions are parameters of the model: \<open>b64decode\<close> is
  \<open>base64.b64decode\<close> on a \<open>str\<close>, \<open>utf8_decode\<close> is \<open>bytes.decode("utf-8")\<close>,
  \<open>json_loads\<close> is \<open>json.loads\<close> on a \<open>str\<close>, \<open>json_dumps\<close> is \<open>json.dumps\<close>
  and \<open>json_dumps_indent n\<close> is \<open>json.dumps(_, indent=n)\<close>.
\<close>

record runtime =
  environ :: "(pystr \<times> pystr) list"
  b64decode :: "pystr \<Rightarrow> exn + pybytes"
  utf8_decode :: "pybytes \<Rightarrow> exn + pystr"
  json_loads :: "pystr \<Rightarrow> exn + json"
  json_dumps :: "json \<Rightarrow> pystr"
  json_dumps_indent :: "nat \<Rightarrow> json \<Rightarrow> pystr"

definition environ_get :: "runtime \<Rightarrow> pystr \<Rightarrow> pystr \<Rightarrow> pystr" where
  "environ_get rt k dflt = (case map_of (environ rt) k of Some v \<Rightarrow> v | None \<Rightarrow> dflt)"

definition EVENT_BUS_NAME :: "runtime \<Rightarrow> pystr" where
  "EVENT_BUS_NAME rt = environ_get rt (ustr ''EVENT_BUS_NAME'') (ustr ''default'')"

definition BUCKET_NAME :: "runtime \<Rightarrow> pystr" where
  "BUCKET_NAME rt = environ_get rt (ustr ''BUCKET_NAME'') (ustr ''messagewall-demo-dev'')"

definition STATE_KEY :: pystr where
  "STATE_KEY = ustr ''state.json''"

section \<open>The external services\<close>

text \<open>
  The table \<open>dynamodb.Table(TABLE_NAME)\<close>: items under their key \<open>(PK, SK)\<close>. The
  attributes besides the key are the three of the storage layout, each absent or present:
  \<open>messageCount\<close> a number (an integer: the handlers only add 1 to it), \<open>text\<close>
  (here \<open>text_attr\<close>) and \<open>createdAt\<close> strings. The keys of the list are distinct
  in a table; \<open>update_item\<close> and \<open>put_item\<close> keep them so.
\<close>

record attrs =
  messageCount :: "int option"
  text_attr :: "pystr option"
  createdAt :: "pystr option"

type_synonym key = "pystr \<times> pystr"

type_synonym table = "(key \<times> attrs) list"

record event_entry =
  Source :: pystr
  DetailType :: pystr
  Detail :: pystr
  EventBusName :: pystr

record s3_object =
  Body :: pystr
  ContentType :: pystr
  CacheControl :: pystr

text \<open>The calls made to the services, in the order they are made, successful or not.\<close>

datatype call =
    UpdateItem key int int
  | PutItem key attrs
  | PutEvents "event_entry list"
  | GetItem key
  | Query pystr bool nat
  | PutObject pystr pystr s3_object

datatype log_line =
    ErrorProcessing exn
  | ReceivedEvent pystr
  | WroteState int nat
  | ErrorGenerating exn

record world =
  table :: table
  bus :: "event_entry list"
  bucket :: "(pystr \<times> pystr) \<rightharpoonup> s3_object"
  calls :: "call list"
  logs :: "log_line list"

text \<open>
  A service call may raise instead of taking effect (throttling, a lost connection, missing
  permissions). Which of the calls of an invocation raise, and what, is an input.
\<close>

datatype service = UPDATE_ITEM | PUT_ITEM | PUT_EVENTS | GET_ITEM | QUERY | PUT_OBJECT

type_synonym faults = "service \<Rightarrow> exn option"

definition no_faults :: faults where
  "no_faults = (\<lambda>_. None)"

text \<open>
  \<open>table.update_item(Key=key, UpdateExpression="SET messageCount =
  if_not_exists(messageCount, :zero) + :inc")\<close>: creates the item when there is none.
\<close>

definition update_item :: "faults \<Rightarrow> key \<Rightarrow> int \<Rightarrow> int \<Rightarrow> world \<Rightarrow> (exn + unit) \<times> world" where
  "update_item flt k zero inc w =
     (let w1 = w\<lparr>calls := calls w @ [UpdateItem k zero inc]\<rparr> in
      case flt UPDATE_ITEM of
        Some e \<Rightarrow> (Inl e, w1)
      | None \<Rightarrow>
          (let old = (case map_of (table w1) k of
                        Some a \<Rightarrow> a
                      | None \<Rightarrow> \<lparr>messageCount = None, text_attr = None, createdAt = None\<rparr>);
               n = (case messageCount old of Some c \<Rightarrow> c | None \<Rightarrow> zero) + inc
           in (Inr (), w1\<lparr>table := AList.update k (old\<lparr>messageCount := Some n\<rparr>) (table w1)\<rparr>)))"

text \<open>\<open>table.put_item(Item=...)\<close>: writes the item under its key, replacing any other.\<close>

definition put_item :: "faults \<Rightarrow> key \<Rightarrow> attrs \<Rightarrow> world \<Rightarrow> (exn + unit) \<times> world" where
  "put_item flt k a w =
     (let w1 = w\<lparr>calls := calls w @ [PutItem k a]\<rparr> in
      case flt PUT_ITEM of
        Some e \<Rightarrow> (Inl e, w1)
      | None \<Rightarrow> (Inr (), w1\<lparr>table := AList.update k a (table w1)\<rparr>))"

text \<open>\<open>events.put_events(Entries=...)\<close>.\<close>

definition put_events :: "faults \<Rightarrow> event_entry list \<Rightarrow> world \<Rightarrow> (exn + unit) \<times> world" where
  "put_events flt entries w =
     (let w1 = w\<lparr>calls := calls w @ [PutEvents entries]\<rparr> in
      case flt PUT_EVENTS of
        Some e \<Rightarrow> (Inl e, w1)
      | None \<Rightarrow> (Inr (), w1\<lparr>bus := bus w1 @ entries\<rparr>))"

section \<open>The API handler (src/app/api-handler/handler.py)\<close>

text \<open>\<open>response(status_code, body)\<close>.\<close>

definition response :: "runtime \<Rightarrow> int \<Rightarrow> json \<Rightarrow> json" where
  "response rt status_code b =
     JObj [(ustr ''statusCode'', JInt status_code),
           (ustr ''headers'', JObj [(ustr ''Content-Type'', JStr (ustr ''application/json''))]),
           (ustr ''body'', (case b of JObj kvs \<Rightarrow> JStr (json_dumps rt b) | _ \<Rightarrow> b))]"

text \<open>\<open>event.get("requestContext", {}).get("http", {}).get("method", dflt)\<close>.\<close>

definition http_method :: "json \<Rightarrow> json \<Rightarrow> exn + json" where
  "http_method event dflt =
     (case dict_get event (ustr ''requestContext'') (JObj []) of
        Inl e \<Rightarrow> Inl e
      | Inr rc \<Rightarrow>
          (case dict_get rc (ustr ''http'') (JObj []) of
             Inl e \<Rightarrow> Inl e
           | Inr h \<Rightarrow> dict_get h (ustr ''method'') dflt))"

text \<open>\<open>base64.b64decode(raw_body).decode("utf-8")\<close>: the argument must be a \<open>str\<close>.\<close>

definition b64decode_utf8 :: "runtime \<Rightarrow> json \<Rightarrow> exn + json" where
  "b64decode_utf8 rt raw =
     (case raw of
        JStr s \<Rightarrow>
          (case b64decode rt s of
             Inl e \<Rightarrow> Inl e
           | Inr bs \<Rightarrow> (case utf8_decode rt bs of Inl e \<Rightarrow> Inl e | Inr s' \<Rightarrow> Inr (JStr s')))
      | _ \<Rightarrow> Inl TypeError)"

text \<open>\<open>json.loads(raw_body)\<close>: the argument must be a \<open>str\<close>.\<close>

definition loads :: "runtime \<Rightarrow> json \<Rightarrow> exn + json" where
  "loads rt raw = (case raw of JStr s \<Rightarrow> json_loads rt s | _ \<Rightarrow> Inl TypeError)"

text \<open>
  The first \<open>try\<close>, up to the decoding: the value of \<open>raw_body\<close>, or what is
  raised.
\<close>

definition raw_body :: "runtime \<Rightarrow> json \<Rightarrow> exn + json" where
  "raw_body rt event =
     (case dict_get event (ustr ''body'') (JStr (ustr ''{}'')) of
        Inl e \<Rightarrow> Inl e
      | Inr raw0 \<Rightarrow>
     (case dict_get event (ustr ''isBase64Encoded'') (JBool False) of
        Inl e \<Rightarrow> Inl e
      | Inr flag \<Rightarrow> if truthy flag then b64decode_utf8 rt raw0 else Inr raw0))"

text \<open>\<open>body = json.loads(raw_body)\<close>.\<close>

definition parse_body :: "runtime \<Rightarrow> json \<Rightarrow> exn + json" where
  "parse_body rt event =
     (case raw_body rt event of Inl e \<Rightarrow> Inl e | Inr raw \<Rightarrow> loads rt raw)"

text \<open>
  \<open>message_text = body.get("text", "").strip()\<close>: the whole body of the first
  \<open>try\<close>.
\<close>

definition parse_message_text :: "runtime \<Rightarrow> json \<Rightarrow> exn + pystr" where
  "parse_message_text rt event =
     (case parse_body rt event of
        Inl e \<Rightarrow> Inl e
      | Inr b \<Rightarrow>
     (case dict_get b (ustr ''text'') (JStr []) of
        Inl e \<Rightarrow> Inl e
      | Inr t \<Rightarrow> str_strip t))"

text \<open>
  The body of the second \<open>try\<close>: the three writes and the success response. \<open>timestamp\<close>
  is \<open>now.strftime(...)\<close> and \<open>message_id\<close> is \<open>str(uuid.uuid4())\<close>.
\<close>

definition store_and_notify ::
  "runtime \<Rightarrow> faults \<Rightarrow> pystr \<Rightarrow> pystr \<Rightarrow> pystr \<Rightarrow> world \<Rightarrow> (exn + json) \<times> world" where
  "store_and_notify rt flt timestamp message_id message_text w =
     (let sort_key = timestamp @ ustr ''#'' @ message_id in
      case update_item flt (ustr ''METADATA'', ustr ''METADATA'') 0 1 w of
        (Inl e, w1) \<Rightarrow> (Inl e, w1)
      | (Inr _, w1) \<Rightarrow>
     (case put_item flt (ustr ''MESSAGE'', sort_key)
             \<lparr>messageCount = None, text_attr = Some message_text, createdAt = Some timestamp\<rparr> w1 of
        (Inl e, w2) \<Rightarrow> (Inl e, w2)
      | (Inr _, w2) \<Rightarrow>
     (case put_events flt
             [\<lparr>Source = ustr ''messagewall.api-handler'',
               DetailType = ustr ''MessagePosted'',
               Detail = json_dumps rt (JObj [(ustr ''messageId'', JStr message_id),
                                             (ustr ''timestamp'', JStr timestamp)]),
               EventBusName = EVENT_BUS_NAME rt\<rparr>] w2 of
        (Inl e, w3) \<Rightarrow> (Inl e, w3)
      | (Inr _, w3) \<Rightarrow>
          (Inr (response rt 200 (JObj [(ustr ''success'', JBool True),
                                       (ustr ''messageId'', JStr message_id),
                                       (ustr ''timestamp'', JStr timestamp)])), w3))))"

text \<open>
  \<open>handler(event, context)\<close> of the API handler. The result is the returned response, or
  the exception that leaves the handler.
\<close>

definition api_handler ::
  "runtime \<Rightarrow> faults \<Rightarrow> pystr \<Rightarrow> pystr \<Rightarrow> json \<Rightarrow> world \<Rightarrow> (exn + json) \<times> world" where
  "api_handler rt flt timestamp message_id event w =
     (case http_method event JNull of
        Inl e \<Rightarrow> (Inl e, w)
      | Inr m0 \<Rightarrow>
          if m0 = JStr (ustr ''OPTIONS'') then (Inr (response rt 200 (JStr [])), w)
          else
     (case http_method event (JStr []) of
        Inl e \<Rightarrow> (Inl e, w)
      | Inr m \<Rightarrow>
          if m \<noteq> JStr (ustr ''POST'')
          then (Inr (response rt 405 (JObj [(ustr ''error'', JStr (ustr ''Method not allowed''))])), w)
          else
     (case parse_message_text rt event of
        Inl e \<Rightarrow>
          if is_ValueError e
          then (Inr (response rt 400 (JObj [(ustr ''error'', JStr (ustr ''Invalid JSON''))])), w)
          else (Inl e, w)
      | Inr message_text \<Rightarrow>
          if message_text = []
          then (Inr (response rt 400
                  (JObj [(ustr ''error'', JStr (ustr ''Message text is required''))])), w)
          else if length message_text > 500
          then (Inr (response rt 400
                  (JObj [(ustr ''error'', JStr (ustr ''Message too long (max 500 chars)''))])), w)
          else
     (case store_and_notify rt flt timestamp message_id message_text w of
        (Inl e, w') \<Rightarrow>
          (Inr (response rt 500 (JObj [(ustr ''error'', JStr (ustr ''Internal server error''))])),
           w'\<lparr>logs := logs w' @ [ErrorProcessing e]\<rparr>)
      | (Inr r, w') \<Rightarrow> (Inr r, w')))))"

section \<open>The snapshot writer (src/app/snapshot-writer/handler.py)\<close>

text \<open>\<open>d.get(k, dflt)\<close> on a dict whose values have one type.\<close>

definition get_or :: "('k \<times> 'v) list \<Rightarrow> 'k \<Rightarrow> 'v \<Rightarrow> 'v" where
  "get_or d k dflt = (case map_of d k of Some v \<Rightarrow> v | None \<Rightarrow> dflt)"

text \<open>
  \<open>table.get_item(Key=key, ProjectionExpression="messageCount")\<close>: the response has
  \<open>Item\<close> when there is an item under the key, with the attribute when the item has it.
\<close>

definition get_item ::
  "faults \<Rightarrow> key \<Rightarrow> world \<Rightarrow> (exn + (pystr \<times> (pystr \<times> int) list) list) \<times> world" where
  "get_item flt k w =
     (let w1 = w\<lparr>calls := calls w @ [GetItem k]\<rparr> in
      case flt GET_ITEM of
        Some e \<Rightarrow> (Inl e, w1)
      | None \<Rightarrow>
          (Inr (case map_of (table w1) k of
                  None \<Rightarrow> []
                | Some a \<Rightarrow>
                    [(ustr ''Item'',
                      (case messageCount a of
                         None \<Rightarrow> []
                       | Some n \<Rightarrow> [(ustr ''messageCount'', n)]))]), w1))"

text \<open>The items of one partition, each with its sort key, in the order of the table.\<close>

definition partition_items :: "pystr \<Rightarrow> table \<Rightarrow> (pystr \<times> attrs) list" where
  "partition_items pk t = map (\<lambda>(k, a). (snd k, a)) (filter (\<lambda>(k, a). fst k = pk) t)"

text \<open>An item as the query returns it under \<open>ProjectionExpression="SK, #mtext, createdAt"\<close>.\<close>

definition projected :: "pystr \<times> attrs \<Rightarrow> (pystr \<times> pystr) list" where
  "projected it =
     [(ustr ''SK'', fst it)]
     @ (case text_attr (snd it) of Some t \<Rightarrow> [(ustr ''text'', t)] | None \<Rightarrow> [])
     @ (case createdAt (snd it) of Some c \<Rightarrow> [(ustr ''createdAt'', c)] | None \<Rightarrow> [])"

text \<open>
  \<open>table.query(KeyConditionExpression="PK = :pk", ScanIndexForward=..., Limit=...)\<close>:
  the items of the partition in the order of their sort keys, ascending or descending, cut
  after \<open>Limit\<close> items. Of the response only \<open>Items\<close> is modelled.
\<close>

definition query ::
  "faults \<Rightarrow> pystr \<Rightarrow> bool \<Rightarrow> nat \<Rightarrow> world
     \<Rightarrow> (exn + (pystr \<times> (pystr \<times> pystr) list list) list) \<times> world" where
  "query flt pk scan_index_forward limit w =
     (let w1 = w\<lparr>calls := calls w @ [Query pk scan_index_forward limit]\<rparr> in
      case flt QUERY of
        Some e \<Rightarrow> (Inl e, w1)
      | None \<Rightarrow>
          (let ascending = sort_key fst (partition_items pk (table w1));
               ordered = (if scan_index_forward then ascending else rev ascending)
           in (Inr [(ustr ''Items'', map projected (take limit ordered))], w1)))"

text \<open>\<open>s3.put_object(Bucket=..., Key=..., Body=..., ContentType=..., CacheControl=...)\<close>.\<close>

definition put_object ::
  "faults \<Rightarrow> pystr \<Rightarrow> pystr \<Rightarrow> s3_object \<Rightarrow> world \<Rightarrow> (exn + unit) \<times> world" where
  "put_object flt b k obj w =
     (let w1 = w\<lparr>calls := calls w @ [PutObject b k obj]\<rparr> in
      case flt PUT_OBJECT of
        Some e \<Rightarrow> (Inl e, w1)
      | None \<Rightarrow> (Inr (), w1\<lparr>bucket := (bucket w1)((b, k) \<mapsto> obj)\<rparr>))"

text \<open>\<open>s.split(sep)\<close> for a separator of one character.\<close>

fun str_split :: "nat \<Rightarrow> pystr \<Rightarrow> pystr list" where
  "str_split sep [] = [[]]"
| "str_split sep (c # cs) =
     (if c = sep then [] # str_split sep cs
      else (case str_split sep cs of
              p # ps \<Rightarrow> (c # p) # ps
            | [] \<Rightarrow> [[c]]))"

text \<open>\<open>xs[i]\<close> for \<open>i \<ge> 0\<close>.\<close>

definition list_index :: "'a list \<Rightarrow> nat \<Rightarrow> exn + 'a" where
  "list_index xs i = (if i < length xs then Inr (xs ! i) else Inl IndexError)"

definition hash_sign :: nat where
  "hash_sign = of_char CHR ''#''"

text \<open>\<open>message_id = sk.split("#")[1] if "#" in sk else sk\<close>.\<close>

definition message_id_of :: "pystr \<Rightarrow> exn + pystr" where
  "message_id_of sk =
     (if hash_sign \<in> set sk then list_index (str_split hash_sign sk) 1 else Inr sk)"

text \<open>The loop over \<open>Items\<close>: the list \<open>messages\<close>, or what the loop raises.\<close>

fun message_entries :: "(pystr \<times> pystr) list list \<Rightarrow> exn + json list" where
  "message_entries [] = Inr []"
| "message_entries (item # items) =
     (case message_id_of (get_or item (ustr ''SK'') []) of
        Inl e \<Rightarrow> Inl e
      | Inr message_id \<Rightarrow>
          (case message_entries items of
             Inl e \<Rightarrow> Inl e
           | Inr rest \<Rightarrow>
               Inr (JObj [(ustr ''id'', JStr message_id),
                          (ustr ''text'', JStr (get_or item (ustr ''text'') [])),
                          (ustr ''createdAt'', JStr (get_or item (ustr ''createdAt'') []))]
                    # rest)))"

text \<open>The body of the \<open>try\<close>. \<open>int(message_count)\<close> leaves an integer as it is.\<close>

definition build_snapshot :: "runtime \<Rightarrow> faults \<Rightarrow> world \<Rightarrow> (exn + json) \<times> world" where
  "build_snapshot rt flt w =
     (case get_item flt (ustr ''METADATA'', ustr ''METADATA'') w of
        (Inl e, w1) \<Rightarrow> (Inl e, w1)
      | (Inr metadata_response, w1) \<Rightarrow>
     (let message_count = get_or (get_or metadata_response (ustr ''Item'') []) (ustr ''messageCount'') 0 in
      case query flt (ustr ''MESSAGE'') False 5 w1 of
        (Inl e, w2) \<Rightarrow> (Inl e, w2)
      | (Inr messages_response, w2) \<Rightarrow>
     (case message_entries (get_or messages_response (ustr ''Items'') []) of
        Inl e \<Rightarrow> (Inl e, w2)
      | Inr messages \<Rightarrow>
     (let state = JObj [(ustr ''messageCount'', JInt message_count),
                        (ustr ''messages'', JList messages)] in
      case put_object flt (BUCKET_NAME rt) STATE_KEY
             \<lparr>Body = json_dumps_indent rt 2 state,
              ContentType = ustr ''application/json'',
              CacheControl = ustr ''no-cache, no-store, must-revalidate''\<rparr> w2 of
        (Inl e, w3) \<Rightarrow> (Inl e, w3)
      | (Inr _, w3) \<Rightarrow>
          (Inr (JObj [(ustr ''statusCode'', JInt 200),
                      (ustr ''body'', JStr (json_dumps rt
                         (JObj [(ustr ''success'', JBool True),
                                (ustr ''messageCount'', JInt message_count)])))]),
           w3\<lparr>logs := logs w3 @ [WroteState message_count (length messages)]\<rparr>)))))"

text \<open>
  \<open>handler(event, context)\<close> of the snapshot writer. The result is the returned value, or
  the exception that leaves the handler.
\<close>

definition snapshot_handler :: "runtime \<Rightarrow> faults \<Rightarrow> json \<Rightarrow> world \<Rightarrow> (exn + json) \<times> world" where
  "snapshot_handler rt flt event w =
     (let w0 = w\<lparr>logs := logs w @ [ReceivedEvent (json_dumps rt event)]\<rparr> in
      case build_snapshot rt flt w0 of
        (Inl e, w') \<Rightarrow> (Inl e, w'\<lparr>logs := logs w' @ [ErrorGenerating e]\<rparr>)
      | (Inr r, w') \<Rightarrow> (Inr r, w'))"

section \<open>Observations on the store\<close>

text \<open>The value of \<open>messageCount\<close> on the counter record, if the record and the attribute exist.\<close>

definition counter_value :: "table \<Rightarrow> int option" where
  "counter_value t =
     (case map_of t (ustr ''METADATA'', ustr ''METADATA'') of
        Some a \<Rightarrow> messageCount a
      | None \<Rightarrow> None)"

definition counter_or_zero :: "table \<Rightarrow> int" where
  "counter_or_zero t = (case counter_value t of Some n \<Rightarrow> n | None \<Rightarrow> 0)"

text \<open>The message records: the items of the partition \<open>MESSAGE\<close> under their sort keys.\<close>

definition stored_messages :: "table \<Rightarrow> (pystr \<times> attrs) list" where
  "stored_messages t = partition_items (ustr ''MESSAGE'') t"

text \<open>By how much the counter is ahead of the number of stored messages.\<close>

definition counter_excess :: "table \<Rightarrow> int" where
  "counter_excess t = counter_or_zero t - int (length (stored_messages t))"

text \<open>The status code of a returned response; \<open>None\<close> when an exception left the handler.\<close>

definition status_of :: "exn + json \<Rightarrow> int option" where
  "status_of r =
     (case r of
        Inr (JObj kvs) \<Rightarrow>
          (case map_of kvs (ustr ''statusCode'') of Some (JInt n) \<Rightarrow> Some n | _ \<Rightarrow> None)
      | _ \<Rightarrow> None)"

text \<open>The counter record after the increment, the message record, its key and the notification.\<close>

definition bumped :: "table \<Rightarrow> attrs" where
  "bumped t =
     (let old = (case map_of t (ustr ''METADATA'', ustr ''METADATA'') of
                   Some a \<Rightarrow> a
                 | None \<Rightarrow> \<lparr>messageCount = None, text_attr = None, createdAt = None\<rparr>)
      in old\<lparr>messageCount := Some ((case messageCount old of Some c \<Rightarrow> c | None \<Rightarrow> 0) + 1)\<rparr>)"

definition message_attrs :: "pystr \<Rightarrow> pystr \<Rightarrow> attrs" where
  "message_attrs message_text timestamp =
     \<lparr>messageCount = None, text_attr = Some message_text, createdAt = Some timestamp\<rparr>"

definition sort_key_of :: "pystr \<Rightarrow> pystr \<Rightarrow> pystr" where
  "sort_key_of timestamp message_id = timestamp @ ustr ''#'' @ message_id"

definition posted_entry :: "runtime \<Rightarrow> pystr \<Rightarrow> pystr \<Rightarrow> event_entry" where
  "posted_entry rt message_id timestamp =
     \<lparr>Source = ustr ''messagewall.api-handler'',
      DetailType = ustr ''MessagePosted'',
      Detail = json_dumps rt (JObj [(ustr ''messageId'', JStr message_id),
                                    (ustr ''timestamp'', JStr timestamp)]),
      EventBusName = EVENT_BUS_NAME rt\<rparr>"

section \<open>What the snapshot writer publishes\<close>

text \<open>Everything after the first \<open>#\<close> of a sort key.\<close>

definition after_first_hash :: "pystr \<Rightarrow> pystr" where
  "after_first_hash sk = tl (dropWhile (\<lambda>c. c \<noteq> hash_sign) sk)"

text \<open>
  The component of a sort key after the first \<open>#\<close>: what stands between the first
  \<open>#\<close> and the next one, or the end. A key without \<open>#\<close> is its own component.
\<close>

definition id_component :: "pystr \<Rightarrow> pystr" where
  "id_component sk =
     (if hash_sign \<in> set sk then takeWhile (\<lambda>c. c \<noteq> hash_sign) (after_first_hash sk) else sk)"

text \<open>The entry of a message record in the published document.\<close>

definition snapshot_entry :: "pystr \<times> attrs \<Rightarrow> json" where
  "snapshot_entry it =
     JObj [(ustr ''id'', JStr (id_component (fst it))),
           (ustr ''text'', JStr (case text_attr (snd it) of Some t \<Rightarrow> t | None \<Rightarrow> [])),
           (ustr ''createdAt'', JStr (case createdAt (snd it) of Some c \<Rightarrow> c | None \<Rightarrow> []))]"

text \<open>The \<open>n\<close> message records with the largest sort keys, the largest first.\<close>

definition newest :: "nat \<Rightarrow> table \<Rightarrow> (pystr \<times> attrs) list" where
  "newest n t = take n (rev (sort_key fst (stored_messages t)))"

text \<open>The published document, the object that carries it and the returned acknowledgment.\<close>

definition snapshot_state :: "table \<Rightarrow> json" where
  "snapshot_state t =
     JObj [(ustr ''messageCount'', JInt (counter_or_zero t)),
           (ustr ''messages'', JList (map snapshot_entry (newest 5 t)))]"

definition state_object :: "runtime \<Rightarrow> table \<Rightarrow> s3_object" where
  "state_object rt t =
     \<lparr>Body = json_dumps_indent rt 2 (snapshot_state t),
      ContentType = ustr ''application/json'',
      CacheControl = ustr ''no-cache, no-store, must-revalidate''\<rparr>"

definition snapshot_ack :: "runtime \<Rightarrow> table \<Rightarrow> json" where
  "snapshot_ack rt t =
     JObj [(ustr ''statusCode'', JInt 200),
           (ustr ''body'', JStr (json_dumps rt
              (JObj [(ustr ''success'', JBool True),
                     (ustr ''messageCount'', JInt (counter_or_zero t))])))]"

text \<open>The calls that write to the table.\<close>

fun table_write :: "call \<Rightarrow> bool" where
  "table_write (UpdateItem k z i) = True"
| "table_write (PutItem k a) = True"
| "table_write _ = False"

section \<open>Sequences of invocations\<close>

text \<open>
  The system's operations are the invocations of the two handlers, each with its runtime,
  the faults of its service calls and its event; an invocation of the API handler also has
  its clock reading and its fresh identifier.
\<close>

datatype invocation =
    Post runtime faults pystr pystr json
  | Snapshot runtime faults json

fun invoke :: "invocation \<Rightarrow> world \<Rightarrow> world" where
  "invoke (Post rt flt timestamp message_id event) w = snd (api_handler rt flt timestamp message_id event w)"
| "invoke (Snapshot rt flt event) w = snd (snapshot_handler rt flt event w)"

section \<open>A runtime and requests for the examples\<close>

subsection \<open>Writing JSON\<close>

function nat_str :: "nat \<Rightarrow> pystr" where
  "nat_str n = (if n < 10 then [48 + n] else nat_str (n div 10) @ [48 + n mod 10])"
  by pat_completeness auto
termination
  by (relation "measure id") auto

definition int_str :: "int \<Rightarrow> pystr" where
  "int_str i = (if i < 0 then of_char CHR ''-'' # nat_str (nat (- i)) else nat_str (nat i))"

definition hex_digit :: "nat \<Rightarrow> nat" where
  "hex_digit d = (if d < 10 then 48 + d else 87 + d)"

definition u_escape :: "nat \<Rightarrow> pystr" where
  "u_escape c =
     [0x5C, 0x75] @ [hex_digit (c div 4096 mod 16), hex_digit (c div 256 mod 16),
                     hex_digit (c div 16 mod 16), hex_digit (c mod 16)]"

definition escape_char :: "nat \<Rightarrow> pystr" where
  "escape_char c =
     (if c = 0x22 then [0x5C, 0x22]
      else if c = 0x5C then [0x5C, 0x5C]
      else if c = 0x0A then [0x5C, 0x6E]
      else if c = 0x0D then [0x5C, 0x72]
      else if c = 0x09 then [0x5C, 0x74]
      else if c = 0x08 then [0x5C, 0x62]
      else if c = 0x0C then [0x5C, 0x66]
      else if 0x20 \<le> c \<and> c \<le> 0x7E then [c]
      else if c < 0x10000 then u_escape c
      else u_escape (0xD800 + (c - 0x10000) div 0x400) @ u_escape (0xDC00 + (c - 0x10000) mod 0x400))"

definition quoted :: "pystr \<Rightarrow> pystr" where
  "quoted s = [0x22] @ concat (map escape_char s) @ [0x22]"

fun join :: "pystr \<Rightarrow> pystr list \<Rightarrow> pystr" where
  "join sep [] = []"
| "join sep [x] = x"
| "join sep (x # y # ys) = x @ sep @ join sep (y # ys)"

text \<open>
  \<open>render None 0\<close> writes a value as \<open>json.dumps\<close> does and \<open>render (Some n) 0\<close> as
  \<open>json.dumps(_, indent=n)\<close> does, except for a float: the digits of \<open>float.__repr__\<close>
  are not modelled, and the examples have no float.
\<close>

fun render :: "nat option \<Rightarrow> nat \<Rightarrow> json \<Rightarrow> pystr" where
  "render ind lvl JNull = ustr ''null''"
| "render ind lvl (JBool b) = (if b then ustr ''true'' else ustr ''false'')"
| "render ind lvl (JInt i) = int_str i"
| "render ind lvl (JFloat f) = ustr ''NaN''"
| "render ind lvl (JStr s) = quoted s"
| "render ind lvl (JList xs) =
     (if xs = [] then ustr ''[]''
      else (case ind of
              None \<Rightarrow> ustr ''['' @ join (ustr '', '') (map (render ind lvl) xs) @ ustr '']''
            | Some n \<Rightarrow>
                ustr ''['' @ [0x0A] @ replicate (n * Suc lvl) 0x20
                @ join (ustr '','' @ [0x0A] @ replicate (n * Suc lvl) 0x20) (map (render ind (Suc lvl)) xs)
                @ [0x0A] @ replicate (n * lvl) 0x20 @ ustr '']''))"
| "render ind lvl (JObj kvs) =
     (if kvs = [] then ustr ''{}''
      else (case ind of
              None \<Rightarrow>
                ustr ''{'' @ join (ustr '', '')
                  (map (\<lambda>kv. quoted (fst kv) @ ustr '': '' @ render ind lvl (snd kv)) kvs) @ ustr ''}''
            | Some n \<Rightarrow>
                ustr ''{'' @ [0x0A] @ replicate (n * Suc lvl) 0x20
                @ join (ustr '','' @ [0x0A] @ replicate (n * Suc lvl) 0x20)
                    (map (\<lambda>kv. quoted (fst kv) @ ustr '': '' @ render ind (Suc lvl) (snd kv)) kvs)
                @ [0x0A] @ replicate (n * lvl) 0x20 @ ustr ''}''))"

subsection \<open>The example runtime\<close>

text \<open>
  \<open>json.loads\<close> on the request bodies of the examples: each body with the value
  \<open>json.loads\<close> gives it. Any other string is treated as \<open>not json\<close> is: malformed.
\<close>

definition long_text :: pystr where
  "long_text = replicate 501 (of_char CHR ''a'')"

definition long_body :: pystr where
  "long_body = ustr ''{\"text\": \"'' @ long_text @ ustr ''\"}''"

definition example_bodies :: "(pystr \<times> json) list" where
  "example_bodies =
     [(ustr ''{\"text\": \" hello \"}'', JObj [(ustr ''text'', JStr (ustr '' hello ''))]),
      (ustr ''{\"text\": \"   \"}'', JObj [(ustr ''text'', JStr (ustr ''   ''))]),
      (ustr ''[1, 2]'', JList [JInt 1, JInt 2]),
      (ustr ''{\"text\": 5}'', JObj [(ustr ''text'', JInt 5)]),
      (ustr ''{}'', JObj []),
      (long_body, JObj [(ustr ''text'', JStr long_text)])]"


definition deeply_nested :: "pystr \<Rightarrow> bool" where
  "deeply_nested s = (100000 \<le> length s \<and> list_all (\<lambda>c. c = of_char CHR ''['') s)"

definition example_loads :: "pystr \<Rightarrow> exn + json" where
  "example_loads s =
     (if deeply_nested s then Inl RecursionError
      else case map_of example_bodies s of Some v \<Rightarrow> Inr v | None \<Rightarrow> Inl JSONDecodeError)"

text \<open>
  \<open>base64.b64decode\<close> on the bodies of the examples: \<open>e30=\<close> is \<open>{}\<close>. Any other
  string is treated as \<open>abc\<close> is: wrongly padded. \<open>utf8_decode\<close> decodes ASCII.
\<close>

definition example_b64decode :: "pystr \<Rightarrow> exn + pybytes" where
  "example_b64decode s = (if s = ustr ''e30='' then Inr [0x7B, 0x7D] else Inl BinasciiError)"

definition example_utf8_decode :: "pybytes \<Rightarrow> exn + pystr" where
  "example_utf8_decode bs =
     (if list_all (\<lambda>b. b < 0x80) bs then Inr (map unat bs) else Inl UnicodeDecodeError)"

definition example_runtime :: runtime where
  "example_runtime =
     \<lparr>environ = [],
      b64decode = example_b64decode,
      utf8_decode = example_utf8_decode,
      json_loads = example_loads,
      json_dumps = render None 0,
      json_dumps_indent = (\<lambda>n. render (Some n) 0)\<rparr>"

text \<open>A request as the function URL delivers it: the method and the body.\<close>

definition http_event :: "string \<Rightarrow> pystr \<Rightarrow> json" where
  "http_event m b =
     JObj [(ustr ''requestContext'', JObj [(ustr ''http'', JObj [(ustr ''method'', JStr (ustr m))])]),
           (ustr ''body'', JStr b),
           (ustr ''isBase64Encoded'', JBool False)]"



definition example_timestamp :: pystr where
  "example_timestamp = ustr ''2024-01-01T00:00:00.000000Z''"

definition example_id :: pystr where
  "example_id = ustr ''11111111-2222-4333-8444-555555555555''"

definition empty_world :: world where
  "empty_world = \<lparr>table = [], bus = [], bucket = Map.empty, calls = [], logs = []\<rparr>"

text \<open>A table with the counter at 7 and seven message records, not in the order of their keys.\<close>

definition message_item :: "string \<Rightarrow> string \<Rightarrow> key \<times> attrs" where
  "message_item ts mid =
     ((ustr ''MESSAGE'', ustr ts @ ustr ''#'' @ ustr mid),
      \<lparr>messageCount = None, text_attr = Some (ustr ''hi''), createdAt = Some (ustr ts)\<rparr>)"

definition seven_messages :: table where
  "seven_messages =
     [((ustr ''METADATA'', ustr ''METADATA''),
       \<lparr>messageCount = Some 7, text_attr = None, createdAt = None\<rparr>),
      message_item ''t3'' ''c'', message_item ''t1'' ''a'', message_item ''t7'' ''g'',
      message_item ''t2'' ''b'', message_item ''t5'' ''e'', message_item ''t4'' ''d'',
      message_item ''t6'' ''f'']"

definition published_entry :: "string \<Rightarrow> string \<Rightarrow> json" where
  "published_entry ts mid =
     JObj [(ustr ''id'', JStr (ustr mid)),
           (ustr ''text'', JStr (ustr ''hi'')),
           (ustr ''createdAt'', JStr (ustr ts))]"

section \<open>Properties of the API handler\<close>

subsection \<open>The method and the body\<close>

lemma http_method_default:
  "http_method event d = Inr m \<Longrightarrow> \<exists>m'. http_method event d' = Inr m' \<and> (m' = m \<or> (m = d \<and> m' = d'))"
  by (auto simp: http_method_def dict_get_def split: sum.splits json.splits option.splits)

lemma post_not_options:
  assumes "http_method event (JStr []) = Inr (JStr (ustr ''POST''))"
  shows "\<exists>m0. http_method event JNull = Inr m0 \<and> m0 \<noteq> JStr (ustr ''OPTIONS'')"
  using http_method_default[OF assms, of JNull] by (auto simp: ustr_def)

lemma api_handler_post:
  assumes "http_method event (JStr []) = Inr (JStr (ustr ''POST''))"
  shows "api_handler rt flt ts mid event w =
     (case parse_message_text rt event of
        Inl e \<Rightarrow>
          if is_ValueError e
          then (Inr (response rt 400 (JObj [(ustr ''error'', JStr (ustr ''Invalid JSON''))])), w)
          else (Inl e, w)
      | Inr message_text \<Rightarrow>
          if message_text = []
          then (Inr (response rt 400
                  (JObj [(ustr ''error'', JStr (ustr ''Message text is required''))])), w)
          else if length message_text > 500
          then (Inr (response rt 400
                  (JObj [(ustr ''error'', JStr (ustr ''Message too long (max 500 chars)''))])), w)
          else
     (case store_and_notify rt flt ts mid message_text w of
        (Inl e, w') \<Rightarrow>
          (Inr (response rt 500 (JObj [(ustr ''error'', JStr (ustr ''Internal server error''))])),
           w'\<lparr>logs := logs w' @ [ErrorProcessing e]\<rparr>)
      | (Inr r, w') \<Rightarrow> (Inr r, w')))"
  using post_not_options[OF assms] assms
  by (auto simp: api_handler_def)

lemma parse_message_text_obj:
  "parse_body rt event = Inr (JObj kvs) \<Longrightarrow>
   parse_message_text rt event =
     (case map_of kvs (ustr ''text'') of None \<Rightarrow> Inr (strip []) | Some v \<Rightarrow> str_strip v)"
  by (simp add: parse_message_text_def dict_get_def str_strip_def split: option.splits)


lemma valid_text:
  assumes "parse_body rt event = Inr (JObj kvs)" "map_of kvs (ustr ''text'') = Some (JStr t)"
  shows "parse_message_text rt event = Inr (strip t)"
  using assms by (simp add: parse_message_text_obj str_strip_def)

subsection \<open>The three writes\<close>

lemma messageCount_bumped: "messageCount (bumped t) = Some (counter_or_zero t + 1)"
  by (simp add: bumped_def counter_or_zero_def counter_value_def Let_def split: option.splits)

lemma update_item_ok:
  "flt UPDATE_ITEM = None \<Longrightarrow>
   update_item flt (ustr ''METADATA'', ustr ''METADATA'') 0 1 w =
     (Inr (), w\<lparr>table := AList.update (ustr ''METADATA'', ustr ''METADATA'') (bumped (table w)) (table w),
               calls := calls w @ [UpdateItem (ustr ''METADATA'', ustr ''METADATA'') 0 1]\<rparr>)"
  by (simp add: update_item_def bumped_def Let_def)

lemma update_item_fail:
  "flt UPDATE_ITEM = Some e \<Longrightarrow>
   update_item flt k z i w = (Inl e, w\<lparr>calls := calls w @ [UpdateItem k z i]\<rparr>)"
  by (simp add: update_item_def Let_def)

lemma put_item_ok:
  "flt PUT_ITEM = None \<Longrightarrow>
   put_item flt k a w = (Inr (), w\<lparr>table := AList.update k a (table w), calls := calls w @ [PutItem k a]\<rparr>)"
  by (simp add: put_item_def Let_def)

lemma put_item_fail:
  "flt PUT_ITEM = Some e \<Longrightarrow> put_item flt k a w = (Inl e, w\<lparr>calls := calls w @ [PutItem k a]\<rparr>)"
  by (simp add: put_item_def Let_def)

lemma put_events_ok:
  "flt PUT_EVENTS = None \<Longrightarrow>
   put_events flt es w = (Inr (), w\<lparr>bus := bus w @ es, calls := calls w @ [PutEvents es]\<rparr>)"
  by (simp add: put_events_def Let_def)

lemma put_events_fail:
  "flt PUT_EVENTS = Some e \<Longrightarrow> put_events flt es w = (Inl e, w\<lparr>calls := calls w @ [PutEvents es]\<rparr>)"
  by (simp add: put_events_def Let_def)

lemma store_and_notify_ok:
  assumes "flt UPDATE_ITEM = None" "flt PUT_ITEM = None" "flt PUT_EVENTS = None"
  shows "store_and_notify rt flt ts mid mtext w =
     (Inr (response rt 200 (JObj [(ustr ''success'', JBool True),
                                  (ustr ''messageId'', JStr mid),
                                  (ustr ''timestamp'', JStr ts)])),
      w\<lparr>table := AList.update (ustr ''MESSAGE'', sort_key_of ts mid) (message_attrs mtext ts)
                  (AList.update (ustr ''METADATA'', ustr ''METADATA'') (bumped (table w)) (table w)),
        bus := bus w @ [posted_entry rt mid ts],
        calls := calls w @ [UpdateItem (ustr ''METADATA'', ustr ''METADATA'') 0 1,
                            PutItem (ustr ''MESSAGE'', sort_key_of ts mid) (message_attrs mtext ts),
                            PutEvents [posted_entry rt mid ts]]\<rparr>)"
  using assms
  by (simp add: store_and_notify_def update_item_ok put_item_ok put_events_ok Let_def
      message_attrs_def posted_entry_def sort_key_of_def)

lemma store_and_notify_put_item_fails:
  assumes "flt UPDATE_ITEM = None" "flt PUT_ITEM = Some e"
  shows "store_and_notify rt flt ts mid mtext w =
     (Inl e,
      w\<lparr>table := AList.update (ustr ''METADATA'', ustr ''METADATA'') (bumped (table w)) (table w),
        calls := calls w @ [UpdateItem (ustr ''METADATA'', ustr ''METADATA'') 0 1,
                            PutItem (ustr ''MESSAGE'', sort_key_of ts mid) (message_attrs mtext ts)]\<rparr>)"
  using assms
  by (simp add: store_and_notify_def update_item_ok put_item_fail Let_def
      message_attrs_def sort_key_of_def)

lemma store_and_notify_put_events_fails:
  assumes "flt UPDATE_ITEM = None" "flt PUT_ITEM = None" "flt PUT_EVENTS = Some e"
  shows "store_and_notify rt flt ts mid mtext w =
     (Inl e,
      w\<lparr>table := AList.update (ustr ''MESSAGE'', sort_key_of ts mid) (message_attrs mtext ts)
                  (AList.update (ustr ''METADATA'', ustr ''METADATA'') (bumped (table w)) (table w)),
        calls := calls w @ [UpdateItem (ustr ''METADATA'', ustr ''METADATA'') 0 1,
                            PutItem (ustr ''MESSAGE'', sort_key_of ts mid) (message_attrs mtext ts),
                            PutEvents [posted_entry rt mid ts]]\<rparr>)"
  using assms
  by (simp add: store_and_notify_def update_item_ok put_item_ok put_events_fail Let_def
      message_attrs_def posted_entry_def sort_key_of_def)

lemma store_and_notify_update_fails:
  assumes "flt UPDATE_ITEM = Some e"
  shows "store_and_notify rt flt ts mid mtext w =
     (Inl e, w\<lparr>calls := calls w @ [UpdateItem (ustr ''METADATA'', ustr ''METADATA'') 0 1]\<rparr>)"
  using assms
  by (simp add: store_and_notify_def update_item_fail Let_def)

lemma MESSAGE_neq_METADATA:
  "ustr ''MESSAGE'' \<noteq> ustr ''METADATA''" "ustr ''METADATA'' \<noteq> ustr ''MESSAGE''"
  by (simp_all add: ustr_def)

lemma counter_value_after:
  "counter_value (AList.update (ustr ''MESSAGE'', sk) a
      (AList.update (ustr ''METADATA'', ustr ''METADATA'') (bumped t) t)) = Some (counter_or_zero t + 1)"
  by (simp add: counter_value_def update_conv' messageCount_bumped MESSAGE_neq_METADATA
      del: AList.update.simps)

lemma counter_value_bump:
  "counter_value (AList.update (ustr ''METADATA'', ustr ''METADATA'') (bumped t) t) = Some (counter_or_zero t + 1)"
  by (simp add: counter_value_def update_conv' messageCount_bumped)

subsection \<open>The outcomes of an invocation\<close>

lemma length_partition_items:
  "length (partition_items pk t) = length (filter (\<lambda>k. fst k = pk) (map fst t))"
  by (induction t) (auto simp: partition_items_def)

lemma partition_items_update_other:
  "fst k \<noteq> pk \<Longrightarrow> partition_items pk (AList.update k a t) = partition_items pk t"
  by (induction t) (auto simp: partition_items_def)

lemma length_partition_items_fresh:
  "k \<notin> fst ` set t \<Longrightarrow> fst k = pk \<Longrightarrow>
   length (partition_items pk (AList.update k a t)) = Suc (length (partition_items pk t))"
  by (simp add: length_partition_items update_keys)

lemma stored_messages_bump:
  "stored_messages (AList.update (ustr ''METADATA'', ustr ''METADATA'') a t) = stored_messages t"
  by (simp add: stored_messages_def partition_items_update_other MESSAGE_neq_METADATA)

lemma status_of_response: "status_of (Inr (response rt n b)) = Some n"
  by (simp add: status_of_def response_def ustr_def)

lemma status_of_Inl: "status_of (Inl e) = None"
  by (simp add: status_of_def)

lemma counter_value_put_message:
  "counter_value (AList.update (ustr ''MESSAGE'', sk) a t) = counter_value t"
  by (simp add: counter_value_def update_conv' MESSAGE_neq_METADATA del: AList.update.simps)

lemma store_and_notify_counter:
  "counter_value (table (snd (store_and_notify rt flt ts mid mtext w))) =
     (if flt UPDATE_ITEM = None then Some (counter_or_zero (table w) + 1) else counter_value (table w))"
proof (cases "flt UPDATE_ITEM")
  case (Some e)
  then show ?thesis by (simp add: store_and_notify_update_fails)
next
  case None
  show ?thesis
  proof (cases "flt PUT_ITEM")
    case (Some e)
    with None show ?thesis
      by (simp add: store_and_notify_put_item_fails counter_value_bump del: AList.update.simps)
  next
    case pi: None
    show ?thesis
    proof (cases "flt PUT_EVENTS")
      case (Some e)
      with None pi show ?thesis
        by (simp add: store_and_notify_put_events_fails counter_value_after del: AList.update.simps)
    next
      case pe: None
      with None pi show ?thesis
        by (simp add: store_and_notify_ok counter_value_after del: AList.update.simps)
    qed
  qed
qed

lemma store_and_notify_success:
  "fst (store_and_notify rt flt ts mid mtext w) = Inr r \<Longrightarrow> flt UPDATE_ITEM = None"
  by (cases "flt UPDATE_ITEM") (simp_all add: store_and_notify_update_fails)

lemma store_and_notify_Inr_status:
  "fst (store_and_notify rt flt ts mid mtext w) = Inr r \<Longrightarrow> status_of (Inr r) = Some 200"
  by (auto simp: store_and_notify_def update_item_def put_item_def put_events_def Let_def
      status_of_response split: option.splits)

lemma api_handler_cases:
  obtains (unchanged) r where "api_handler rt flt ts mid event w = (r, w)"
      "status_of r = None \<or> status_of r = Some 400 \<or> status_of r = Some 405
        \<or> (status_of r = Some 200 \<and> http_method event (JStr []) \<noteq> Inr (JStr (ustr ''POST'')))"
  | (stored) mtext r w' where "http_method event (JStr []) = Inr (JStr (ustr ''POST''))"
      "store_and_notify rt flt ts mid mtext w = (Inr r, w')"
      "api_handler rt flt ts mid event w = (Inr r, w')"
  | (failed) mtext e w' where "http_method event (JStr []) = Inr (JStr (ustr ''POST''))"
      "store_and_notify rt flt ts mid mtext w = (Inl e, w')"
      "api_handler rt flt ts mid event w =
         (Inr (response rt 500 (JObj [(ustr ''error'', JStr (ustr ''Internal server error''))])),
          w'\<lparr>logs := logs w' @ [ErrorProcessing e]\<rparr>)"
proof (cases "http_method event (JStr []) = Inr (JStr (ustr ''POST''))")
  case False
  then have "\<exists>r. api_handler rt flt ts mid event w = (r, w) \<and>
      (status_of r = None \<or> status_of r = Some 405 \<or> status_of r = Some 200)"
    by (auto simp: api_handler_def status_of_response status_of_Inl split: sum.splits)
  with False show ?thesis using unchanged by blast
next
  case True
  show ?thesis
  proof (cases "parse_message_text rt event")
    case (Inl e)
    with True have "\<exists>r. api_handler rt flt ts mid event w = (r, w) \<and>
        (status_of r = None \<or> status_of r = Some 400)"
      by (cases "is_ValueError e") (simp_all add: api_handler_post status_of_response status_of_Inl)
    then show ?thesis using unchanged by blast
  next
    case (Inr mtext)
    show ?thesis
    proof (cases "mtext = [] \<or> length mtext > 500")
      case True
      with Inr \<open>http_method event (JStr []) = _\<close>
      have "\<exists>r. api_handler rt flt ts mid event w = (r, w) \<and> status_of r = Some 400"
        by (auto simp add: api_handler_post status_of_response)
      then show ?thesis using unchanged by blast
    next
      case False
      obtain r' w' where sn: "store_and_notify rt flt ts mid mtext w = (r', w')"
        by (cases "store_and_notify rt flt ts mid mtext w")
      show ?thesis
      proof (cases r')
        case (Inl e)
        with sn False Inr True show ?thesis
          using failed[of mtext e w'] by (simp add: api_handler_post)
      next
        case r: (Inr r)
        with sn False Inr True show ?thesis
          using stored[of mtext r w'] by (simp add: api_handler_post)
      qed
    qed
  qed
qed

subsection \<open>The example requests\<close>

lemma http_method_http_event: "http_method (http_event m b) d = Inr (JStr (ustr m))"
  by (simp add: http_method_def http_event_def dict_get_def ustr_def)

lemma raw_body_http_event: "raw_body rt (http_event m b) = Inr (JStr b)"
  by (simp add: raw_body_def http_event_def dict_get_def ustr_def)

lemma parse_body_http_event: "parse_body example_runtime (http_event m b) = example_loads b"
  by (simp add: parse_body_def raw_body_http_event loads_def example_runtime_def)

lemma short_not_deeply_nested: "length s < 100000 \<Longrightarrow> \<not> deeply_nested s"
  by (simp add: deeply_nested_def)

lemma loads_hello: "example_loads (ustr ''{\"text\": \" hello \"}'') = Inr (JObj [(ustr ''text'', JStr (ustr '' hello ''))])"
  by (simp add: example_loads_def example_bodies_def ustr_def short_not_deeply_nested)

lemma strip_hello: "strip (ustr '' hello '') = ustr ''hello''"
  by (simp add: strip_def ustr_def is_space_def)



lemma loads_blank: "example_loads (ustr ''{\"text\": \"   \"}'') = Inr (JObj [(ustr ''text'', JStr (ustr ''   ''))])"
  by (simp add: example_loads_def example_bodies_def ustr_def short_not_deeply_nested)

lemma strip_blank: "strip (ustr ''   '') = []"
  by (simp add: strip_def ustr_def is_space_def)




lemma loads_list: "example_loads (ustr ''[1, 2]'') = Inr (JList [JInt 1, JInt 2])"
  by (simp add: example_loads_def example_bodies_def ustr_def short_not_deeply_nested)

lemma loads_number_text: "example_loads (ustr ''{\"text\": 5}'') = Inr (JObj [(ustr ''text'', JInt 5)])"
  by (simp add: example_loads_def example_bodies_def ustr_def short_not_deeply_nested)





lemma render_accepted:
  "json_dumps example_runtime
     (JObj [(ustr ''success'', JBool True),
            (ustr ''messageId'', JStr example_id),
            (ustr ''timestamp'', JStr example_timestamp)]) =
   ustr ''{\"success\": true, \"messageId\": \"11111111-2222-4333-8444-555555555555\", \"timestamp\": \"2024-01-01T00:00:00.000000Z\"}''"
  by code_simp

lemma render_success:
  "json_dumps example_runtime (JObj [(ustr ''success'', JBool True), (ustr ''messageCount'', JInt 7)]) =
     ustr ''{\"success\": true, \"messageCount\": 7}''"
  by code_simp

lemma render_indented:
  "json_dumps_indent example_runtime 2
     (JObj [(ustr ''messageCount'', JInt 1),
            (ustr ''messages'', JList [JObj [(ustr ''id'', JStr (ustr ''g''))]])]) =
     ustr ''{'' @ [0x0A]
     @ ustr ''  \"messageCount\": 1,'' @ [0x0A]
     @ ustr ''  \"messages\": ['' @ [0x0A]
     @ ustr ''    {'' @ [0x0A]
     @ ustr ''      \"id\": \"g\"'' @ [0x0A]
     @ ustr ''    }'' @ [0x0A]
     @ ustr ''  ]'' @ [0x0A]
     @ ustr ''}''"
  by code_simp

lemma render_empty_state:
  "json_dumps_indent example_runtime 2 (snapshot_state []) =
     ustr ''{'' @ [0x0A]
     @ ustr ''  \"messageCount\": 0,'' @ [0x0A]
     @ ustr ''  \"messages\": []'' @ [0x0A]
     @ ustr ''}''"
  by code_simp

subsection \<open>Accepted messages\<close>

text \<open>
  Claim C1. Take a POST request whose body parses as a JSON object with a string \<open>text\<close>
  that is non-empty after trimming and whose trimmed length is at most 500, and let none of
  the three service calls raise. Then the handler makes exactly three calls, in this order:
  the increment of \<open>messageCount\<close> on the record \<open>(METADATA, METADATA)\<close> with a missing
  counter taken as 0, the write of the message record under \<open>(MESSAGE, <timestamp>#<id>)\<close>
  with the trimmed text and \<open>createdAt\<close>, and one \<open>put_events\<close> with one entry whose detail
  is \<open>{messageId, timestamp}\<close>. The counter is one more than before, the message record is
  stored, every other item is as before, the bucket and the log are untouched. The handler
  returns the dict with \<open>statusCode\<close> 200, the header \<open>Content-Type: application/json\<close> and,
  as \<open>body\<close>, the text \<open>json.dumps\<close> writes for \<open>{success: true, messageId, timestamp}\<close>.
\<close>

theorem accepted_post_three_effects:
  assumes "http_method event (JStr []) = Inr (JStr (ustr ''POST''))"
    and "parse_body rt event = Inr (JObj kvs)"
    and "map_of kvs (ustr ''text'') = Some (JStr t)"
    and "strip t \<noteq> []" and "length (strip t) \<le> 500"
    and "flt UPDATE_ITEM = None" and "flt PUT_ITEM = None" and "flt PUT_EVENTS = None"
  shows "(case api_handler rt flt timestamp message_id event w of (r, w') \<Rightarrow>
      r = Inr (JObj [(ustr ''statusCode'', JInt 200),
                     (ustr ''headers'', JObj [(ustr ''Content-Type'', JStr (ustr ''application/json''))]),
                     (ustr ''body'', JStr (json_dumps rt
                               (JObj [(ustr ''success'', JBool True),
                                      (ustr ''messageId'', JStr message_id),
                                      (ustr ''timestamp'', JStr timestamp)])))])
    \<and> calls w' = calls w @
        [UpdateItem (ustr ''METADATA'', ustr ''METADATA'') 0 1,
         PutItem (ustr ''MESSAGE'', timestamp @ ustr ''#'' @ message_id)
           \<lparr>messageCount = None, text_attr = Some (strip t), createdAt = Some timestamp\<rparr>,
         PutEvents [\<lparr>Source = ustr ''messagewall.api-handler'',
                     DetailType = ustr ''MessagePosted'',
                     Detail = json_dumps rt (JObj [(ustr ''messageId'', JStr message_id),
                                                   (ustr ''timestamp'', JStr timestamp)]),
                     EventBusName = EVENT_BUS_NAME rt\<rparr>]]
    \<and> counter_value (table w') = Some (counter_or_zero (table w) + 1)
    \<and> map_of (table w') (ustr ''MESSAGE'', timestamp @ ustr ''#'' @ message_id) =
        Some \<lparr>messageCount = None, text_attr = Some (strip t), createdAt = Some timestamp\<rparr>
    \<and> (\<forall>k. k \<noteq> (ustr ''METADATA'', ustr ''METADATA'')
            \<and> k \<noteq> (ustr ''MESSAGE'', timestamp @ ustr ''#'' @ message_id)
          \<longrightarrow> map_of (table w') k = map_of (table w) k)
    \<and> bus w' = bus w @
        [\<lparr>Source = ustr ''messagewall.api-handler'',
          DetailType = ustr ''MessagePosted'',
          Detail = json_dumps rt (JObj [(ustr ''messageId'', JStr message_id),
                                        (ustr ''timestamp'', JStr timestamp)]),
          EventBusName = EVENT_BUS_NAME rt\<rparr>]
    \<and> bucket w' = bucket w \<and> logs w' = logs w)"
proof -
  have "api_handler rt flt timestamp message_id event w =
          store_and_notify rt flt timestamp message_id (strip t) w"
    using assms by (simp add: api_handler_post valid_text store_and_notify_ok)
  then show ?thesis
    using assms(6-8) counter_value_after[of "sort_key_of timestamp message_id"]
    by (simp add: store_and_notify_ok update_conv' del: AList.update.simps)
       (simp add: message_attrs_def posted_entry_def sort_key_of_def response_def)
qed

theorem accepted_post_three_effects_witness:
  "(case api_handler example_runtime no_faults example_timestamp example_id
           (http_event ''POST'' (ustr ''{\"text\": \" hello \"}'')) empty_world of (r, w') \<Rightarrow>
      r = Inr (JObj [(ustr ''statusCode'', JInt 200),
                     (ustr ''headers'', JObj [(ustr ''Content-Type'', JStr (ustr ''application/json''))]),
                     (ustr ''body'', JStr (ustr ''{\"success\": true, \"messageId\": \"11111111-2222-4333-8444-555555555555\", \"timestamp\": \"2024-01-01T00:00:00.000000Z\"}''))])
    \<and> calls w' =
        [UpdateItem (ustr ''METADATA'', ustr ''METADATA'') 0 1,
         PutItem (ustr ''MESSAGE'', example_timestamp @ ustr ''#'' @ example_id)
           \<lparr>messageCount = None, text_attr = Some (ustr ''hello''), createdAt = Some example_timestamp\<rparr>,
         PutEvents [posted_entry example_runtime example_id example_timestamp]]
    \<and> counter_value (table w') = Some 1
    \<and> bus w' = [posted_entry example_runtime example_id example_timestamp])"
proof -
  let ?ev = "http_event ''POST'' (ustr ''{\"text\": \" hello \"}'')"
  have 1: "http_method ?ev (JStr []) = Inr (JStr (ustr ''POST''))"
    by (rule http_method_http_event)
  have 2: "parse_body example_runtime ?ev = Inr (JObj [(ustr ''text'', JStr (ustr '' hello ''))])"
    by (simp add: parse_body_http_event loads_hello)
  have 3: "map_of [(ustr ''text'', JStr (ustr '' hello ''))] (ustr ''text'') = Some (JStr (ustr '' hello ''))"
    by simp
  have 4: "strip (ustr '' hello '') \<noteq> []" "length (strip (ustr '' hello '')) \<le> 500"
    by (simp_all add: strip_hello) (simp_all add: ustr_def)
  have 5: "no_faults UPDATE_ITEM = None" "no_faults PUT_ITEM = None" "no_faults PUT_EVENTS = None"
    by (simp_all add: no_faults_def)
  show ?thesis
    using accepted_post_three_effects[OF 1 2 3 4 5, where timestamp = example_timestamp and message_id = example_id and w = empty_world]
    by (simp add: strip_hello posted_entry_def empty_world_def counter_or_zero_def counter_value_def
        render_accepted split: prod.splits)
qed

subsection \<open>Rejected requests\<close>







subsection \<open>Bodies that are not objects\<close>

text \<open>
  Claim C10. For a POST request whose body parses to a JSON value that is not an object, or
  to an object whose \<open>text\<close> is present and not a string, \<open>AttributeError\<close> leaves the
  handler: no response is returned, and the world is as it was. The first \<open>try\<close> catches
  only the \<open>ValueError\<close> family.
\<close>

theorem non_object_body_escapes:
  assumes "http_method event (JStr []) = Inr (JStr (ustr ''POST''))"
  shows "(parse_body rt event = Inr v \<and> (\<forall>kvs. v \<noteq> JObj kvs)
            \<longrightarrow> api_handler rt flt ts mid event w = (Inl AttributeError, w))
       \<and> (parse_body rt event = Inr (JObj kvs) \<and> map_of kvs (ustr ''text'') = Some x \<and> (\<forall>s. x \<noteq> JStr s)
            \<longrightarrow> api_handler rt flt ts mid event w = (Inl AttributeError, w))"
proof -
  have "parse_message_text rt event = Inl AttributeError"
    if "parse_body rt event = Inr v" "\<forall>kvs. v \<noteq> JObj kvs" for v
    using that by (cases v) (simp_all add: parse_message_text_def dict_get_def)
  moreover have "parse_message_text rt event = Inl AttributeError"
    if "parse_body rt event = Inr (JObj kvs)" "map_of kvs (ustr ''text'') = Some x" "\<forall>s. x \<noteq> JStr s"
    using that by (cases x) (simp_all add: parse_message_text_obj str_strip_def)
  ultimately show ?thesis
    by (auto simp: api_handler_post[OF assms])
qed

theorem non_object_body_escapes_witness:
  "api_handler example_runtime no_faults example_timestamp example_id
     (http_event ''POST'' (ustr ''[1, 2]'')) empty_world = (Inl AttributeError, empty_world)
   \<and> api_handler example_runtime no_faults example_timestamp example_id
     (http_event ''POST'' (ustr ''{\"text\": 5}'')) empty_world = (Inl AttributeError, empty_world)"
proof -
  have post: "\<And>b. http_method (http_event ''POST'' b) (JStr []) = Inr (JStr (ustr ''POST''))"
    by (rule http_method_http_event)
  have a: "parse_body example_runtime (http_event ''POST'' (ustr ''[1, 2]'')) = Inr (JList [JInt 1, JInt 2])"
    by (simp add: parse_body_http_event loads_list)
  have b: "parse_body example_runtime (http_event ''POST'' (ustr ''{\"text\": 5}'')) =
             Inr (JObj [(ustr ''text'', JInt 5)])"
    by (simp add: parse_body_http_event loads_number_text)
  from non_object_body_escapes[OF post, where v = "JList [JInt 1, JInt 2]" and rt = example_runtime] a
  have 1: "api_handler example_runtime no_faults example_timestamp example_id
     (http_event ''POST'' (ustr ''[1, 2]'')) empty_world = (Inl AttributeError, empty_world)"
    by simp
  from non_object_body_escapes[OF post, where kvs = "[(ustr ''text'', JInt 5)]" and x = "JInt 5" and rt = example_runtime] b
  have 2: "api_handler example_runtime no_faults example_timestamp example_id
     (http_event ''POST'' (ustr ''{\"text\": 5}'')) empty_world = (Inl AttributeError, empty_world)"
    by simp
  from 1 2 show ?thesis by simp
qed

subsection \<open>Failures after the increment\<close>

lemma counter_or_zero_after:
  "counter_or_zero (AList.update (ustr ''MESSAGE'', sk) a
      (AList.update (ustr ''METADATA'', ustr ''METADATA'') (bumped t) t)) = counter_or_zero t + 1"
  "counter_or_zero (AList.update (ustr ''METADATA'', ustr ''METADATA'') (bumped t) t) = counter_or_zero t + 1"
  using counter_value_after[of sk a t] counter_value_bump[of t]
  by (simp_all add: counter_or_zero_def del: AList.update.simps)

lemma stored_messages_fresh:
  assumes "(ustr ''MESSAGE'', sk) \<notin> fst ` set t"
  shows "length (stored_messages (AList.update (ustr ''MESSAGE'', sk) a
           (AList.update (ustr ''METADATA'', ustr ''METADATA'') b t))) = Suc (length (stored_messages t))"
proof -
  have "(ustr ''MESSAGE'', sk) \<notin> fst ` set (AList.update (ustr ''METADATA'', ustr ''METADATA'') b t)"
    using assms by (simp add: dom_update MESSAGE_neq_METADATA del: AList.update.simps)
  then show ?thesis
    unfolding stored_messages_def
    by (simp add: length_partition_items_fresh partition_items_update_other MESSAGE_neq_METADATA
        del: AList.update.simps)
qed

lemma hello_post:
  "http_method (http_event ''POST'' (ustr ''{\"text\": \" hello \"}'')) (JStr []) = Inr (JStr (ustr ''POST''))"
  "parse_body example_runtime (http_event ''POST'' (ustr ''{\"text\": \" hello \"}'')) =
     Inr (JObj [(ustr ''text'', JStr (ustr '' hello ''))])"
  "map_of [(ustr ''text'', JStr (ustr '' hello ''))] (ustr ''text'') = Some (JStr (ustr '' hello ''))"
  "strip (ustr '' hello '') \<noteq> []"
  "length (strip (ustr '' hello '')) \<le> 500"
  by (simp_all add: http_method_http_event parse_body_http_event loads_hello strip_hello)
     (simp_all add: ustr_def)

lemma empty_table:
  "counter_value [] = None" "counter_or_zero [] = 0" "stored_messages [] = []" "counter_excess [] = 0"
  by (simp_all add: counter_excess_def counter_or_zero_def counter_value_def stored_messages_def
      partition_items_def)

lemma empty_world_simps:
  "table empty_world = []" "bus empty_world = []" "calls empty_world = []" "logs empty_world = []"
  "bucket empty_world = Map.empty"
  by (simp_all add: empty_world_def)

lemma no_faults_None: "no_faults s = None"
  by (simp add: no_faults_def)

text \<open>
  Claim C2, as the code has it. Take a valid POST request whose counter increment succeeds.
  When the write of the message record raises, the handler returns status 500 with
  \<open>Internal server error\<close>; the counter stays incremented, the message records are as
  before, and so the counter is one further ahead of the stored messages than it was. When
  the write succeeds and the notification raises, the handler returns the same 500; nothing
  is rolled back: the counter stays incremented and the message record stays stored, no
  notification is on the bus, and (the sort key being new) the counter is no further ahead
  of the stored messages than it was.
\<close>

theorem no_rollback_after_increment:
  assumes "http_method event (JStr []) = Inr (JStr (ustr ''POST''))"
    and "parse_body rt event = Inr (JObj kvs)"
    and "map_of kvs (ustr ''text'') = Some (JStr t)"
    and "strip t \<noteq> []" and "length (strip t) \<le> 500"
    and "flt UPDATE_ITEM = None"
  shows "(flt PUT_ITEM = Some e \<longrightarrow>
      (case api_handler rt flt timestamp message_id event w of (r, w') \<Rightarrow>
          r = Inr (response rt 500 (JObj [(ustr ''error'', JStr (ustr ''Internal server error''))]))
        \<and> counter_value (table w') = Some (counter_or_zero (table w) + 1)
        \<and> stored_messages (table w') = stored_messages (table w)
        \<and> counter_excess (table w') = counter_excess (table w) + 1
        \<and> bus w' = bus w))
    \<and> (flt PUT_ITEM = None \<and> flt PUT_EVENTS = Some e \<longrightarrow>
      (case api_handler rt flt timestamp message_id event w of (r, w') \<Rightarrow>
          r = Inr (response rt 500 (JObj [(ustr ''error'', JStr (ustr ''Internal server error''))]))
        \<and> counter_value (table w') = Some (counter_or_zero (table w) + 1)
        \<and> map_of (table w') (ustr ''MESSAGE'', timestamp @ ustr ''#'' @ message_id) =
            Some \<lparr>messageCount = None, text_attr = Some (strip t), createdAt = Some timestamp\<rparr>
        \<and> bus w' = bus w
        \<and> ((ustr ''MESSAGE'', timestamp @ ustr ''#'' @ message_id) \<notin> fst ` set (table w)
             \<longrightarrow> counter_excess (table w') = counter_excess (table w))))"
proof -
  have h: "api_handler rt flt timestamp message_id event w =
     (case store_and_notify rt flt timestamp message_id (strip t) w of
        (Inl e, w') \<Rightarrow>
          (Inr (response rt 500 (JObj [(ustr ''error'', JStr (ustr ''Internal server error''))])),
           w'\<lparr>logs := logs w' @ [ErrorProcessing e]\<rparr>)
      | (Inr r, w') \<Rightarrow> (Inr r, w'))"
    using assms by (simp add: api_handler_post valid_text)
  have a: ?thesis if "flt PUT_ITEM = Some e"
    using that assms(6)
    by (simp add: h store_and_notify_put_item_fails counter_value_bump counter_or_zero_after
        stored_messages_bump counter_excess_def del: AList.update.simps)
  have b: ?thesis if "flt PUT_ITEM = None" "flt PUT_EVENTS = Some e"
    using that assms(6) stored_messages_fresh[of "sort_key_of timestamp message_id" "table w"]
    by (simp add: h store_and_notify_put_events_fails counter_value_after counter_or_zero_after
        update_conv' counter_excess_def del: AList.update.simps)
       (simp add: sort_key_of_def message_attrs_def)
  show ?thesis
    using a b by (cases "flt PUT_ITEM") auto
qed

theorem no_rollback_after_increment_witness:
  "(case api_handler example_runtime (no_faults(PUT_ITEM \<mapsto> ServiceError (ustr ''throttled'')))
           example_timestamp example_id
           (http_event ''POST'' (ustr ''{\"text\": \" hello \"}'')) empty_world of (r, w') \<Rightarrow>
      r = Inr (response example_runtime 500 (JObj [(ustr ''error'', JStr (ustr ''Internal server error''))]))
      \<and> counter_value (table w') = Some 1
      \<and> stored_messages (table w') = []
      \<and> counter_excess (table w') = 1)
   \<and> (case api_handler example_runtime (no_faults(PUT_EVENTS \<mapsto> ServiceError (ustr ''throttled'')))
           example_timestamp example_id
           (http_event ''POST'' (ustr ''{\"text\": \" hello \"}'')) empty_world of (r, w') \<Rightarrow>
      r = Inr (response example_runtime 500 (JObj [(ustr ''error'', JStr (ustr ''Internal server error''))]))
      \<and> counter_value (table w') = Some 1
      \<and> map_of (table w') (ustr ''MESSAGE'', example_timestamp @ ustr ''#'' @ example_id) =
            Some \<lparr>messageCount = None, text_attr = Some (ustr ''hello''), createdAt = Some example_timestamp\<rparr>
      \<and> bus w' = []
      \<and> counter_excess (table w') = 0)"
proof -
  let ?f1 = "no_faults(PUT_ITEM \<mapsto> ServiceError (ustr ''throttled''))"
  let ?f2 = "no_faults(PUT_EVENTS \<mapsto> ServiceError (ustr ''throttled''))"
  have f1: "?f1 UPDATE_ITEM = None" and f2: "?f2 UPDATE_ITEM = None"
    by (simp_all add: no_faults_def)
  have 1: "(case api_handler example_runtime ?f1 example_timestamp example_id
           (http_event ''POST'' (ustr ''{\"text\": \" hello \"}'')) empty_world of (r, w') \<Rightarrow>
      r = Inr (response example_runtime 500 (JObj [(ustr ''error'', JStr (ustr ''Internal server error''))]))
      \<and> counter_value (table w') = Some 1
      \<and> stored_messages (table w') = []
      \<and> counter_excess (table w') = 1)"
    using no_rollback_after_increment[where flt = "?f1" and e = "ServiceError (ustr ''throttled'')"
        and timestamp = example_timestamp and message_id = example_id and w = empty_world,
        OF hello_post f1]
    by (simp add: empty_table empty_world_simps no_faults_def split: prod.splits)
  have 2: "(case api_handler example_runtime ?f2 example_timestamp example_id
           (http_event ''POST'' (ustr ''{\"text\": \" hello \"}'')) empty_world of (r, w') \<Rightarrow>
      r = Inr (response example_runtime 500 (JObj [(ustr ''error'', JStr (ustr ''Internal server error''))]))
      \<and> counter_value (table w') = Some 1
      \<and> map_of (table w') (ustr ''MESSAGE'', example_timestamp @ ustr ''#'' @ example_id) =
            Some \<lparr>messageCount = None, text_attr = Some (ustr ''hello''), createdAt = Some example_timestamp\<rparr>
      \<and> bus w' = []
      \<and> counter_excess (table w') = 0)"
    using no_rollback_after_increment[where flt = "?f2" and e = "ServiceError (ustr ''throttled'')"
        and timestamp = example_timestamp and message_id = example_id and w = empty_world,
        OF hello_post f2]
    by (simp add: empty_table empty_world_simps strip_hello no_faults_def split: prod.splits)
  from 1 2 show ?thesis by simp
qed

text \<open>
  The claim as stated fails where the notification raises: on the empty table the handler
  returns 500, the counter is 1 and one message is stored, so the counter is not overstated.
\<close>

lemma api_handler_notifier_fails:
  "api_handler example_runtime (no_faults(PUT_EVENTS \<mapsto> ServiceError (ustr ''throttled'')))
     example_timestamp example_id (http_event ''POST'' (ustr ''{\"text\": \" hello \"}'')) empty_world =
   (Inr (response example_runtime 500 (JObj [(ustr ''error'', JStr (ustr ''Internal server error''))])),
    empty_world
      \<lparr>table := [((ustr ''METADATA'', ustr ''METADATA''),
                   \<lparr>messageCount = Some 1, text_attr = None, createdAt = None\<rparr>),
                  ((ustr ''MESSAGE'', example_timestamp @ ustr ''#'' @ example_id),
                   \<lparr>messageCount = None, text_attr = Some (ustr ''hello''),
                    createdAt = Some example_timestamp\<rparr>)],
       calls := [UpdateItem (ustr ''METADATA'', ustr ''METADATA'') 0 1,
                 PutItem (ustr ''MESSAGE'', example_timestamp @ ustr ''#'' @ example_id)
                   \<lparr>messageCount = None, text_attr = Some (ustr ''hello''),
                    createdAt = Some example_timestamp\<rparr>,
                 PutEvents [posted_entry example_runtime example_id example_timestamp]],
       logs := [ErrorProcessing (ServiceError (ustr ''throttled''))]\<rparr>)"
  using hello_post
  by (simp add: api_handler_post valid_text strip_hello store_and_notify_put_events_fails
      no_faults_def empty_world_def bumped_def message_attrs_def sort_key_of_def MESSAGE_neq_METADATA)

theorem notifier_failure_counter_not_overstated:
  "fst (api_handler example_runtime (no_faults(PUT_EVENTS \<mapsto> ServiceError (ustr ''throttled'')))
     example_timestamp example_id (http_event ''POST'' (ustr ''{\"text\": \" hello \"}'')) empty_world) =
     Inr (response example_runtime 500 (JObj [(ustr ''error'', JStr (ustr ''Internal server error''))]))
   \<and> counter_or_zero (table empty_world) = 0
   \<and> length (stored_messages (table empty_world)) = 0
   \<and> counter_or_zero (table (snd (api_handler example_runtime
        (no_faults(PUT_EVENTS \<mapsto> ServiceError (ustr ''throttled'')))
        example_timestamp example_id (http_event ''POST'' (ustr ''{\"text\": \" hello \"}'')) empty_world))) = 1
   \<and> length (stored_messages (table (snd (api_handler example_runtime
        (no_faults(PUT_EVENTS \<mapsto> ServiceError (ustr ''throttled'')))
        example_timestamp example_id (http_event ''POST'' (ustr ''{\"text\": \" hello \"}'')) empty_world)))) = 1
   \<and> counter_excess (table (snd (api_handler example_runtime
        (no_faults(PUT_EVENTS \<mapsto> ServiceError (ustr ''throttled'')))
        example_timestamp example_id (http_event ''POST'' (ustr ''{\"text\": \" hello \"}'')) empty_world)))
      \<noteq> counter_excess (table empty_world) + 1"
  by (simp add: api_handler_notifier_fails counter_excess_def counter_or_zero_def counter_value_def
      stored_messages_def partition_items_def MESSAGE_neq_METADATA)
     (simp add: empty_world_def)

section \<open>Properties of the snapshot writer\<close>

subsection \<open>The message id\<close>

lemma str_split_not_Nil: "str_split sep s \<noteq> []"
  by (induction s) (auto split: list.splits)

lemma hd_str_split: "hd (str_split sep s) = takeWhile (\<lambda>c. c \<noteq> sep) s"
  by (induction s) (auto split: list.splits simp: str_split_not_Nil)

lemma str_split_at_first:
  "sep \<in> set s \<Longrightarrow>
   str_split sep s = takeWhile (\<lambda>c. c \<noteq> sep) s # str_split sep (tl (dropWhile (\<lambda>c. c \<noteq> sep) s))"
  by (induction s) (auto split: list.splits simp: str_split_not_Nil)

lemma message_id_of_eq: "message_id_of sk = Inr (id_component sk)"
proof (cases "hash_sign \<in> set sk")
  case False
  then show ?thesis by (simp add: message_id_of_def id_component_def)
next
  case True
  let ?rest = "str_split hash_sign (after_first_hash sk)"
  have split: "str_split hash_sign sk = takeWhile (\<lambda>c. c \<noteq> hash_sign) sk # ?rest"
    using str_split_at_first[OF True] by (simp add: after_first_hash_def)
  obtain p ps where rest: "?rest = p # ps"
    using str_split_not_Nil[of hash_sign "after_first_hash sk"] by (cases ?rest) auto
  have "p = takeWhile (\<lambda>c. c \<noteq> hash_sign) (after_first_hash sk)"
    using hd_str_split[of hash_sign "after_first_hash sk"] rest by simp
  with True split rest show ?thesis
    by (simp add: message_id_of_def id_component_def list_index_def)
qed

lemma count_one_after:
  "count_list s h = 1 \<Longrightarrow> h \<notin> set (tl (dropWhile (\<lambda>c. c \<noteq> h) s))"
  by (induction s) (auto simp: count_list_0_iff split: if_splits)

text \<open>
  Claim C4, as the code has it. The id of a message is the second component of its sort
  key split at \<open>#\<close>: what stands between the first \<open>#\<close> and the next one (or the end).
  A sort key without \<open>#\<close> is used whole. Where the key has exactly one \<open>#\<close>, as the keys
  the API handler writes have, the id is everything after it.
\<close>

theorem message_id_is_second_component:
  "(hash_sign \<in> set sk \<longrightarrow>
      message_id_of sk = Inr (takeWhile (\<lambda>c. c \<noteq> hash_sign) (after_first_hash sk)))
   \<and> (hash_sign \<notin> set sk \<longrightarrow> message_id_of sk = Inr sk)
   \<and> (count_list sk hash_sign = 1 \<longrightarrow> message_id_of sk = Inr (after_first_hash sk))"
proof (intro conjI impI)
  assume "count_list sk hash_sign = 1"
  then have "hash_sign \<notin> set (after_first_hash sk)" "hash_sign \<in> set sk"
    using count_one_after[of sk hash_sign] count_list_0_iff[of sk hash_sign]
    by (auto simp: after_first_hash_def)
  then show "message_id_of sk = Inr (after_first_hash sk)"
    by (auto simp add: message_id_of_eq id_component_def takeWhile_eq_all_conv)
qed (simp_all add: message_id_of_eq id_component_def)

theorem message_id_is_second_component_witness:
  "message_id_of (ustr ''a#b#c'') = Inr (ustr ''b'')
   \<and> message_id_of (ustr ''abc'') = Inr (ustr ''abc'')
   \<and> message_id_of (example_timestamp @ ustr ''#'' @ example_id) = Inr example_id"
proof -
  have 1: "message_id_of (ustr ''a#b#c'') = Inr (ustr ''b'')"
    using message_id_is_second_component[of "ustr ''a#b#c''"]
    by (simp add: after_first_hash_def ustr_def hash_sign_def)
  have 2: "message_id_of (ustr ''abc'') = Inr (ustr ''abc'')"
    using message_id_is_second_component[of "ustr ''abc''"]
    by (simp add: after_first_hash_def ustr_def hash_sign_def)
  have 3: "message_id_of (example_timestamp @ ustr ''#'' @ example_id) = Inr example_id"
    using message_id_is_second_component[of "example_timestamp @ ustr ''#'' @ example_id"]
    by (simp add: after_first_hash_def ustr_def hash_sign_def example_timestamp_def example_id_def)
  from 1 2 3 show ?thesis by simp
qed

text \<open>
  The claim as stated fails on a key with two \<open>#\<close>: the id of \<open>a#b#c\<close> is \<open>b\<close>, not
  \<open>b#c\<close>.
\<close>

theorem message_id_not_everything_after_first_hash:
  "count_list (ustr ''a#b#c'') hash_sign = 2
   \<and> message_id_of (ustr ''a#b#c'') = Inr (ustr ''b'')
   \<and> after_first_hash (ustr ''a#b#c'') = ustr ''b#c''
   \<and> message_id_of (ustr ''a#b#c'') \<noteq> Inr (after_first_hash (ustr ''a#b#c''))"
  by (simp add: message_id_of_def after_first_hash_def ustr_def hash_sign_def list_index_def)

subsection \<open>The reads and the write\<close>

lemma get_or_projected:
  "get_or (projected it) (ustr ''SK'') [] = fst it"
  "get_or (projected it) (ustr ''text'') [] = (case text_attr (snd it) of Some t \<Rightarrow> t | None \<Rightarrow> [])"
  "get_or (projected it) (ustr ''createdAt'') [] = (case createdAt (snd it) of Some c \<Rightarrow> c | None \<Rightarrow> [])"
  by (simp_all add: get_or_def projected_def ustr_def split: option.splits)

lemma message_entries_projected:
  "message_entries (map projected its) = Inr (map snapshot_entry its)"
  by (induction its) (simp_all add: message_id_of_eq get_or_projected snapshot_entry_def)

lemma get_item_ok:
  "flt GET_ITEM = None \<Longrightarrow>
   get_item flt (ustr ''METADATA'', ustr ''METADATA'') w =
     (Inr (case map_of (table w) (ustr ''METADATA'', ustr ''METADATA'') of
             None \<Rightarrow> []
           | Some a \<Rightarrow>
               [(ustr ''Item'',
                 (case messageCount a of
                    None \<Rightarrow> []
                  | Some n \<Rightarrow> [(ustr ''messageCount'', n)]))]),
      w\<lparr>calls := calls w @ [GetItem (ustr ''METADATA'', ustr ''METADATA'')]\<rparr>)"
  by (simp add: get_item_def Let_def)

lemma message_count_read:
  "get_or (get_or (case map_of t (ustr ''METADATA'', ustr ''METADATA'') of
             None \<Rightarrow> []
           | Some a \<Rightarrow>
               [(ustr ''Item'',
                 (case messageCount a of
                    None \<Rightarrow> []
                  | Some n \<Rightarrow> [(ustr ''messageCount'', n)]))]) (ustr ''Item'') []) (ustr ''messageCount'') 0
   = counter_or_zero t"
  by (simp add: get_or_def counter_or_zero_def counter_value_def split: option.splits)

lemma get_item_fail:
  "flt GET_ITEM = Some e \<Longrightarrow> get_item flt k w = (Inl e, w\<lparr>calls := calls w @ [GetItem k]\<rparr>)"
  by (simp add: get_item_def Let_def)

lemma query_ok:
  "flt QUERY = None \<Longrightarrow>
   query flt (ustr ''MESSAGE'') False 5 w =
     (Inr [(ustr ''Items'', map projected (newest 5 (table w)))],
      w\<lparr>calls := calls w @ [Query (ustr ''MESSAGE'') False 5]\<rparr>)"
  by (simp add: query_def Let_def newest_def stored_messages_def)

lemma query_fail:
  "flt QUERY = Some e \<Longrightarrow>
   query flt pk fwd n w = (Inl e, w\<lparr>calls := calls w @ [Query pk fwd n]\<rparr>)"
  by (simp add: query_def Let_def)

lemma put_object_ok:
  "flt PUT_OBJECT = None \<Longrightarrow>
   put_object flt b k obj w =
     (Inr (), w\<lparr>bucket := (bucket w)((b, k) \<mapsto> obj), calls := calls w @ [PutObject b k obj]\<rparr>)"
  by (simp add: put_object_def Let_def)

lemma put_object_fail:
  "flt PUT_OBJECT = Some e \<Longrightarrow>
   put_object flt b k obj w = (Inl e, w\<lparr>calls := calls w @ [PutObject b k obj]\<rparr>)"
  by (simp add: put_object_def Let_def)

lemma get_or_single: "get_or [(k, v)] k d = v"
  by (simp add: get_or_def)

lemma build_snapshot_ok:
  assumes "flt GET_ITEM = None" "flt QUERY = None" "flt PUT_OBJECT = None"
  shows "build_snapshot rt flt w =
     (Inr (snapshot_ack rt (table w)),
      w\<lparr>bucket := (bucket w)((BUCKET_NAME rt, STATE_KEY) \<mapsto> state_object rt (table w)),
        calls := calls w @ [GetItem (ustr ''METADATA'', ustr ''METADATA''),
                            Query (ustr ''MESSAGE'') False 5,
                            PutObject (BUCKET_NAME rt) STATE_KEY (state_object rt (table w))],
        logs := logs w @ [WroteState (counter_or_zero (table w)) (length (newest 5 (table w)))]\<rparr>)"
  using assms
  by (simp add: build_snapshot_def get_item_ok query_ok put_object_ok message_count_read
      message_entries_projected get_or_single Let_def snapshot_ack_def state_object_def snapshot_state_def)

lemma build_snapshot_get_item_fails:
  assumes "flt GET_ITEM = Some e"
  shows "build_snapshot rt flt w =
     (Inl e, w\<lparr>calls := calls w @ [GetItem (ustr ''METADATA'', ustr ''METADATA'')]\<rparr>)"
  using assms by (simp add: build_snapshot_def get_item_fail)

lemma build_snapshot_query_fails:
  assumes "flt GET_ITEM = None" "flt QUERY = Some e"
  shows "build_snapshot rt flt w =
     (Inl e, w\<lparr>calls := calls w @ [GetItem (ustr ''METADATA'', ustr ''METADATA''),
                                    Query (ustr ''MESSAGE'') False 5]\<rparr>)"
  using assms by (simp add: build_snapshot_def get_item_ok query_fail Let_def)

lemma build_snapshot_put_object_fails:
  assumes "flt GET_ITEM = None" "flt QUERY = None" "flt PUT_OBJECT = Some e"
  shows "build_snapshot rt flt w =
     (Inl e, w\<lparr>calls := calls w @ [GetItem (ustr ''METADATA'', ustr ''METADATA''),
                                    Query (ustr ''MESSAGE'') False 5,
                                    PutObject (BUCKET_NAME rt) STATE_KEY (state_object rt (table w))]\<rparr>)"
  using assms
  by (simp add: build_snapshot_def get_item_ok query_ok put_object_fail message_count_read
      message_entries_projected get_or_single Let_def state_object_def snapshot_state_def)

lemma build_snapshot_table: "table (snd (build_snapshot rt flt w)) = table w"
proof (cases "flt GET_ITEM")
  case (Some e)
  then show ?thesis by (simp add: build_snapshot_get_item_fails)
next
  case gi: None
  show ?thesis
  proof (cases "flt QUERY")
    case (Some e)
    with gi show ?thesis by (simp add: build_snapshot_query_fails)
  next
    case q: None
    show ?thesis
    proof (cases "flt PUT_OBJECT")
      case (Some e)
      with gi q show ?thesis by (simp add: build_snapshot_put_object_fails)
    next
      case None
      with gi q show ?thesis by (simp add: build_snapshot_ok)
    qed
  qed
qed

lemma snapshot_handler_table: "table (snd (snapshot_handler rt flt event w)) = table w"
  using build_snapshot_table[of rt flt "w\<lparr>logs := logs w @ [ReceivedEvent (json_dumps rt event)]\<rparr>"]
  by (auto simp add: snapshot_handler_def Let_def split: prod.splits sum.splits)

lemma snapshot_handler_ok:
  assumes "flt GET_ITEM = None" "flt QUERY = None" "flt PUT_OBJECT = None"
  shows "snapshot_handler rt flt event w =
     (Inr (snapshot_ack rt (table w)),
      w\<lparr>bucket := (bucket w)((BUCKET_NAME rt, STATE_KEY) \<mapsto> state_object rt (table w)),
        calls := calls w @ [GetItem (ustr ''METADATA'', ustr ''METADATA''),
                            Query (ustr ''MESSAGE'') False 5,
                            PutObject (BUCKET_NAME rt) STATE_KEY (state_object rt (table w))],
        logs := logs w @ [ReceivedEvent (json_dumps rt event),
                          WroteState (counter_or_zero (table w)) (length (newest 5 (table w)))]\<rparr>)"
  using assms by (simp add: snapshot_handler_def Let_def build_snapshot_ok)

lemma snapshot_handler_fails:
  assumes "flt GET_ITEM = Some e
           \<or> (flt GET_ITEM = None \<and> flt QUERY = Some e)
           \<or> (flt GET_ITEM = None \<and> flt QUERY = None \<and> flt PUT_OBJECT = Some e)"
  shows "fst (snapshot_handler rt flt event w) = Inl e"
    and "bucket (snd (snapshot_handler rt flt event w)) = bucket w"
    and "logs (snd (snapshot_handler rt flt event w)) =
           logs w @ [ReceivedEvent (json_dumps rt event), ErrorGenerating e]"
  using assms
  by (auto simp add: snapshot_handler_def Let_def build_snapshot_get_item_fails
      build_snapshot_query_fails build_snapshot_put_object_fails)

lemma snapshot_handler_Inr:
  assumes "fst (snapshot_handler rt flt event w) = Inr r"
  shows "flt GET_ITEM = None \<and> flt QUERY = None \<and> flt PUT_OBJECT = None"
proof (rule ccontr)
  assume "\<not> ?thesis"
  then obtain e where "flt GET_ITEM = Some e
           \<or> (flt GET_ITEM = None \<and> flt QUERY = Some e)
           \<or> (flt GET_ITEM = None \<and> flt QUERY = None \<and> flt PUT_OBJECT = Some e)"
    by (cases "flt GET_ITEM"; cases "flt QUERY"; cases "flt PUT_OBJECT") auto
  from snapshot_handler_fails(1)[OF this, of rt event w] assms show False by simp
qed

lemma newest_length: "length (newest n t) = min n (length (stored_messages t))"
  by (simp add: newest_def)

lemma newest_subset: "set (newest n t) \<subseteq> set (stored_messages t)"
  using set_take_subset[of n "rev (sort_key fst (stored_messages t))"] by (simp add: newest_def)

lemma descending_sorted:
  "sorted_wrt (\<lambda>a b. fst b \<le> fst a) (rev (sort_key fst xs))"
  using sorted_sort_key[of fst xs] by (simp add: sorted_wrt_rev sorted_map)

lemma newest_descending: "sorted_wrt (\<lambda>a b. fst b \<le> fst a) (newest n t)"
  unfolding newest_def by (rule sorted_wrt_take[OF descending_sorted])

lemma newest_largest:
  assumes "m \<in> set (stored_messages t)" "m \<notin> set (newest n t)" "m' \<in> set (newest n t)"
  shows "fst m \<le> fst m'"
proof -
  let ?ys = "rev (sort_key fst (stored_messages t))"
  have "sorted_wrt (\<lambda>a b. fst b \<le> fst a) (take n ?ys @ drop n ?ys)"
    using descending_sorted[of "stored_messages t"] by simp
  then have *: "\<forall>x\<in>set (take n ?ys). \<forall>y\<in>set (drop n ?ys). fst y \<le> fst x"
    unfolding sorted_wrt_append by blast
  have "m \<in> set (take n ?ys @ drop n ?ys)"
    using assms(1) by simp
  then have "m \<in> set (drop n ?ys)"
    using assms(2) unfolding set_append newest_def by blast
  with * assms(3) show ?thesis by (auto simp: newest_def)
qed

subsection \<open>The published document\<close>

text \<open>
  Claim C3. When none of its service calls raises, an invocation of the snapshot writer
  makes one \<open>put_object\<close>, after the two reads: the object under \<open>state.json\<close> becomes the
  document \<open>{messageCount, messages}\<close> written with \<open>indent=2\<close>, with content type
  \<open>application/json\<close> and cache control \<open>no-cache, no-store, must-revalidate\<close>.
  \<open>messageCount\<close> is the counter record's value, 0 when there is none. \<open>messages\<close> has
  the entries of at most 5 message records (5, or all of them when there are fewer), in
  descending order of their sort keys, and no message record left out has a larger sort key
  than one that is in.
\<close>

theorem snapshot_document:
  assumes "flt GET_ITEM = None" "flt QUERY = None" "flt PUT_OBJECT = None"
  shows "(case snapshot_handler rt flt event w of (r, w') \<Rightarrow>
      calls w' = calls w @
         [GetItem (ustr ''METADATA'', ustr ''METADATA''),
          Query (ustr ''MESSAGE'') False 5,
          PutObject (BUCKET_NAME rt) STATE_KEY
            \<lparr>Body = json_dumps_indent rt 2
                      (JObj [(ustr ''messageCount'', JInt (counter_or_zero (table w))),
                             (ustr ''messages'', JList (map snapshot_entry (newest 5 (table w))))]),
             ContentType = ustr ''application/json'',
             CacheControl = ustr ''no-cache, no-store, must-revalidate''\<rparr>]
    \<and> bucket w' = (bucket w)((BUCKET_NAME rt, STATE_KEY) \<mapsto>
            \<lparr>Body = json_dumps_indent rt 2
                      (JObj [(ustr ''messageCount'', JInt (counter_or_zero (table w))),
                             (ustr ''messages'', JList (map snapshot_entry (newest 5 (table w))))]),
             ContentType = ustr ''application/json'',
             CacheControl = ustr ''no-cache, no-store, must-revalidate''\<rparr>))
   \<and> length (newest 5 (table w)) = min 5 (length (stored_messages (table w)))
   \<and> set (newest 5 (table w)) \<subseteq> set (stored_messages (table w))
   \<and> sorted_wrt (\<lambda>a b. fst b \<le> fst a) (newest 5 (table w))
   \<and> (\<forall>m \<in> set (stored_messages (table w)) - set (newest 5 (table w)).
        \<forall>m' \<in> set (newest 5 (table w)). fst m \<le> fst m')"
  using assms newest_largest[of _ "table w" 5]
  by (auto simp add: snapshot_handler_ok newest_length newest_descending state_object_def
      snapshot_state_def dest: subsetD[OF newest_subset])

lemma counter_seven: "counter_or_zero seven_messages = 7"
  by code_simp

lemma newest_seven:
  "map snapshot_entry (newest 5 seven_messages) =
     [published_entry ''t7'' ''g'', published_entry ''t6'' ''f'', published_entry ''t5'' ''e'',
      published_entry ''t4'' ''d'', published_entry ''t3'' ''c'']"
  by code_simp

lemma stored_seven: "length (stored_messages seven_messages) = 7"
  by code_simp

theorem snapshot_document_witness:
  "(case snapshot_handler example_runtime no_faults JNull (empty_world\<lparr>table := seven_messages\<rparr>) of
     (r, w') \<Rightarrow>
       bucket w' (BUCKET_NAME example_runtime, STATE_KEY) =
         Some \<lparr>Body = json_dumps_indent example_runtime 2
                 (JObj [(ustr ''messageCount'', JInt 7),
                        (ustr ''messages'',
                         JList [published_entry ''t7'' ''g'', published_entry ''t6'' ''f'',
                                published_entry ''t5'' ''e'', published_entry ''t4'' ''d'',
                                published_entry ''t3'' ''c''])]),
                ContentType = ustr ''application/json'',
                CacheControl = ustr ''no-cache, no-store, must-revalidate''\<rparr>)
   \<and> length (newest 5 seven_messages) = 5"
  using snapshot_document[OF no_faults_None[of GET_ITEM] no_faults_None[of QUERY]
      no_faults_None[of PUT_OBJECT],
      where rt = example_runtime and event = JNull and w = "empty_world\<lparr>table := seven_messages\<rparr>"]
  by (simp add: counter_seven newest_seven stored_seven split: prod.splits)

subsection \<open>Failures\<close>

lemma snapshot_handler_calls:
  "\<exists>cs. calls (snd (snapshot_handler rt flt event w)) = calls w @ cs \<and> (\<forall>c\<in>set cs. \<not> table_write c)"
proof (cases "flt GET_ITEM")
  case (Some e)
  then show ?thesis
    by (simp add: snapshot_handler_def Let_def build_snapshot_get_item_fails)
next
  case gi: None
  show ?thesis
  proof (cases "flt QUERY")
    case (Some e)
    with gi show ?thesis
      by (simp add: snapshot_handler_def Let_def build_snapshot_query_fails)
  next
    case q: None
    show ?thesis
    proof (cases "flt PUT_OBJECT")
      case (Some e)
      with gi q show ?thesis
        by (simp add: snapshot_handler_def Let_def build_snapshot_put_object_fails)
    next
      case None
      with gi q show ?thesis
        by (simp add: snapshot_handler_ok)
    qed
  qed
qed

text \<open>
  Claim C9. When the read of the counter record, the query or the write of the object
  raises, the same exception leaves the snapshot writer, after a log line that names it;
  nothing is published. When none raises, the writer returns status 200 with the body
  \<open>{success: true, messageCount}\<close>, the count being the counter record's value. A value
  is returned only when no call raised: there is no error result.
\<close>

theorem snapshot_failures_propagate:
  "(flt GET_ITEM = Some e
      \<or> (flt GET_ITEM = None \<and> flt QUERY = Some e)
      \<or> (flt GET_ITEM = None \<and> flt QUERY = None \<and> flt PUT_OBJECT = Some e)
    \<longrightarrow> (case snapshot_handler rt flt event w of (r, w') \<Rightarrow>
           r = Inl e
         \<and> logs w' = logs w @ [ReceivedEvent (json_dumps rt event), ErrorGenerating e]
         \<and> bucket w' = bucket w))
   \<and> (flt GET_ITEM = None \<and> flt QUERY = None \<and> flt PUT_OBJECT = None
    \<longrightarrow> fst (snapshot_handler rt flt event w) =
          Inr (JObj [(ustr ''statusCode'', JInt 200),
                     (ustr ''body'', JStr (json_dumps rt
                        (JObj [(ustr ''success'', JBool True),
                               (ustr ''messageCount'', JInt (counter_or_zero (table w)))])))]))
   \<and> (fst (snapshot_handler rt flt event w) = Inr r
    \<longrightarrow> flt GET_ITEM = None \<and> flt QUERY = None \<and> flt PUT_OBJECT = None)"
proof (intro conjI impI)
  assume f: "flt GET_ITEM = Some e
      \<or> (flt GET_ITEM = None \<and> flt QUERY = Some e)
      \<or> (flt GET_ITEM = None \<and> flt QUERY = None \<and> flt PUT_OBJECT = Some e)"
  show "case snapshot_handler rt flt event w of (r, w') \<Rightarrow>
           r = Inl e
         \<and> logs w' = logs w @ [ReceivedEvent (json_dumps rt event), ErrorGenerating e]
         \<and> bucket w' = bucket w"
    using snapshot_handler_fails[OF f, of rt event w]
    by (simp add: split_beta)
next
  assume "flt GET_ITEM = None \<and> flt QUERY = None \<and> flt PUT_OBJECT = None"
  then show "fst (snapshot_handler rt flt event w) =
          Inr (JObj [(ustr ''statusCode'', JInt 200),
                     (ustr ''body'', JStr (json_dumps rt
                        (JObj [(ustr ''success'', JBool True),
                               (ustr ''messageCount'', JInt (counter_or_zero (table w)))])))])"
    by (simp add: snapshot_handler_ok snapshot_ack_def)
next
  assume "fst (snapshot_handler rt flt event w) = Inr r"
  then have *: "flt GET_ITEM = None \<and> flt QUERY = None \<and> flt PUT_OBJECT = None"
    by (rule snapshot_handler_Inr)
  from * show "flt GET_ITEM = None" by simp
  from * show "flt QUERY = None" by simp
  from * show "flt PUT_OBJECT = None" by simp
qed

theorem snapshot_failures_propagate_witness:
  "(case snapshot_handler example_runtime (no_faults(QUERY \<mapsto> ServiceError (ustr ''throttled''))) JNull
          (empty_world\<lparr>table := seven_messages\<rparr>) of (r, w') \<Rightarrow>
      r = Inl (ServiceError (ustr ''throttled''))
      \<and> logs w' = [ReceivedEvent (json_dumps example_runtime JNull),
                   ErrorGenerating (ServiceError (ustr ''throttled''))]
      \<and> bucket w' = Map.empty)
   \<and> fst (snapshot_handler example_runtime no_faults JNull (empty_world\<lparr>table := seven_messages\<rparr>)) =
       Inr (JObj [(ustr ''statusCode'', JInt 200),
                  (ustr ''body'', JStr (json_dumps example_runtime
                     (JObj [(ustr ''success'', JBool True), (ustr ''messageCount'', JInt 7)])))])"
proof -
  let ?w = "empty_world\<lparr>table := seven_messages\<rparr>"
  have 1: "(case snapshot_handler example_runtime (no_faults(QUERY \<mapsto> ServiceError (ustr ''throttled''))) JNull
          ?w of (r, w') \<Rightarrow>
      r = Inl (ServiceError (ustr ''throttled''))
      \<and> logs w' = [ReceivedEvent (json_dumps example_runtime JNull),
                   ErrorGenerating (ServiceError (ustr ''throttled''))]
      \<and> bucket w' = Map.empty)"
    using snapshot_failures_propagate[where flt = "no_faults(QUERY \<mapsto> ServiceError (ustr ''throttled''))"
        and e = "ServiceError (ustr ''throttled'')" and rt = example_runtime and event = JNull and w = ?w]
    by (simp add: no_faults_def empty_world_simps)
  have 2: "fst (snapshot_handler example_runtime no_faults JNull ?w) =
       Inr (JObj [(ustr ''statusCode'', JInt 200),
                  (ustr ''body'', JStr (json_dumps example_runtime
                     (JObj [(ustr ''success'', JBool True), (ustr ''messageCount'', JInt 7)])))])"
    using snapshot_failures_propagate[where flt = no_faults and rt = example_runtime and event = JNull and w = ?w]
    by (simp add: no_faults_def counter_seven)
  from 1 2 show ?thesis by simp
qed

subsection \<open>Idempotence\<close>

text \<open>
  Claim C7. An invocation of the snapshot writer leaves the table as it was, whatever its
  event and whichever of its calls raise, and none of its calls is a write to the table.
  Two invocations that return, on worlds with the same table and with any events, publish
  the same object and return the same value; in particular a second invocation right after
  a first one leaves the bucket as the first one left it.
\<close>

theorem snapshot_idempotent:
  "table (snd (snapshot_handler rt flt event w)) = table w
   \<and> (\<exists>cs. calls (snd (snapshot_handler rt flt event w)) = calls w @ cs
          \<and> (\<forall>c\<in>set cs. \<not> table_write c))
   \<and> (table w_a = table w_b
        \<and> fst (snapshot_handler rt flt_a event_a w_a) = Inr r_a
        \<and> fst (snapshot_handler rt flt_b event_b w_b) = Inr r_b
      \<longrightarrow> bucket (snd (snapshot_handler rt flt_a event_a w_a)) (BUCKET_NAME rt, STATE_KEY)
            = bucket (snd (snapshot_handler rt flt_b event_b w_b)) (BUCKET_NAME rt, STATE_KEY)
          \<and> r_a = r_b)
   \<and> (fst (snapshot_handler rt flt_a event_a w) = Inr r_a
        \<and> fst (snapshot_handler rt flt_b event_b (snd (snapshot_handler rt flt_a event_a w))) = Inr r_b
      \<longrightarrow> bucket (snd (snapshot_handler rt flt_b event_b (snd (snapshot_handler rt flt_a event_a w))))
            = bucket (snd (snapshot_handler rt flt_a event_a w))
          \<and> r_b = r_a)"
proof (intro conjI impI)
  show "table (snd (snapshot_handler rt flt event w)) = table w"
    by (rule snapshot_handler_table)
  show "\<exists>cs. calls (snd (snapshot_handler rt flt event w)) = calls w @ cs
          \<and> (\<forall>c\<in>set cs. \<not> table_write c)"
    by (rule snapshot_handler_calls)
next
  assume h: "table w_a = table w_b
        \<and> fst (snapshot_handler rt flt_a event_a w_a) = Inr r_a
        \<and> fst (snapshot_handler rt flt_b event_b w_b) = Inr r_b"
  then have f1: "flt_a GET_ITEM = None" "flt_a QUERY = None" "flt_a PUT_OBJECT = None"
    and f2: "flt_b GET_ITEM = None" "flt_b QUERY = None" "flt_b PUT_OBJECT = None"
    using snapshot_handler_Inr[of rt flt_a event_a w_a r_a] snapshot_handler_Inr[of rt flt_b event_b w_b r_b]
    by simp_all
  from h show "bucket (snd (snapshot_handler rt flt_a event_a w_a)) (BUCKET_NAME rt, STATE_KEY)
            = bucket (snd (snapshot_handler rt flt_b event_b w_b)) (BUCKET_NAME rt, STATE_KEY)"
    by (simp add: snapshot_handler_ok[OF f1] snapshot_handler_ok[OF f2])
  from h show "r_a = r_b"
    by (auto simp add: snapshot_handler_ok[OF f1] snapshot_handler_ok[OF f2])
next
  assume h: "fst (snapshot_handler rt flt_a event_a w) = Inr r_a
        \<and> fst (snapshot_handler rt flt_b event_b (snd (snapshot_handler rt flt_a event_a w))) = Inr r_b"
  then have f1: "flt_a GET_ITEM = None" "flt_a QUERY = None" "flt_a PUT_OBJECT = None"
    and f2: "flt_b GET_ITEM = None" "flt_b QUERY = None" "flt_b PUT_OBJECT = None"
    using snapshot_handler_Inr[of rt flt_a event_a w r_a]
      snapshot_handler_Inr[of rt flt_b event_b "snd (snapshot_handler rt flt_a event_a w)" r_b]
    by simp_all
  from h show "bucket (snd (snapshot_handler rt flt_b event_b (snd (snapshot_handler rt flt_a event_a w))))
            = bucket (snd (snapshot_handler rt flt_a event_a w))"
    by (simp add: snapshot_handler_ok[OF f1] snapshot_handler_ok[OF f2])
  from h show "r_b = r_a"
    by (auto simp add: snapshot_handler_ok[OF f1] snapshot_handler_ok[OF f2])
qed

theorem snapshot_idempotent_witness:
  "fst (snapshot_handler example_runtime no_faults JNull (empty_world\<lparr>table := seven_messages\<rparr>)) =
     Inr (snapshot_ack example_runtime seven_messages)
   \<and> fst (snapshot_handler example_runtime no_faults (JStr (ustr ''again''))
       (snd (snapshot_handler example_runtime no_faults JNull (empty_world\<lparr>table := seven_messages\<rparr>)))) =
     Inr (snapshot_ack example_runtime seven_messages)
   \<and> bucket (snd (snapshot_handler example_runtime no_faults (JStr (ustr ''again''))
       (snd (snapshot_handler example_runtime no_faults JNull (empty_world\<lparr>table := seven_messages\<rparr>)))))
      = bucket (snd (snapshot_handler example_runtime no_faults JNull (empty_world\<lparr>table := seven_messages\<rparr>)))
   \<and> table (snd (snapshot_handler example_runtime no_faults JNull (empty_world\<lparr>table := seven_messages\<rparr>)))
      = seven_messages
   \<and> bucket (snd (snapshot_handler example_runtime no_faults JNull
         (empty_world\<lparr>table := seven_messages\<rparr>))) (BUCKET_NAME example_runtime, STATE_KEY)
      = bucket (snd (snapshot_handler example_runtime no_faults (JStr (ustr ''again''))
         (empty_world\<lparr>table := seven_messages, logs := [WroteState 0 0]\<rparr>)))
         (BUCKET_NAME example_runtime, STATE_KEY)"
proof -
  let ?w = "empty_world\<lparr>table := seven_messages\<rparr>"
  let ?v = "empty_world\<lparr>table := seven_messages, logs := [WroteState 0 0]\<rparr>"
  let ?w1 = "snd (snapshot_handler example_runtime no_faults JNull ?w)"
  have v: "fst (snapshot_handler example_runtime no_faults (JStr (ustr ''again'')) ?v) =
     Inr (snapshot_ack example_runtime seven_messages)"
    by (simp add: snapshot_handler_ok no_faults_None)
  have t: "table ?w1 = seven_messages"
    using snapshot_idempotent[where rt = example_runtime and flt = no_faults and event = JNull and w = ?w]
    by simp
  have 1: "fst (snapshot_handler example_runtime no_faults JNull ?w) =
     Inr (snapshot_ack example_runtime seven_messages)"
    by (simp add: snapshot_handler_ok no_faults_None)
  have 2: "fst (snapshot_handler example_runtime no_faults (JStr (ustr ''again'')) ?w1) =
     Inr (snapshot_ack example_runtime seven_messages)"
    by (simp add: snapshot_handler_ok no_faults_None)
  have 3: "bucket (snd (snapshot_handler example_runtime no_faults (JStr (ustr ''again'')) ?w1)) = bucket ?w1"
    using snapshot_idempotent[where rt = example_runtime and flt_a = no_faults and flt_b = no_faults
        and event_a = JNull and event_b = "JStr (ustr ''again'')" and w = ?w
        and r_a = "snapshot_ack example_runtime seven_messages"
        and r_b = "snapshot_ack example_runtime seven_messages"] 1 2
    by simp
  have 4: "bucket (snd (snapshot_handler example_runtime no_faults JNull ?w)) (BUCKET_NAME example_runtime, STATE_KEY)
      = bucket (snd (snapshot_handler example_runtime no_faults (JStr (ustr ''again'')) ?v))
         (BUCKET_NAME example_runtime, STATE_KEY)"
    using snapshot_idempotent[where rt = example_runtime and flt_a = no_faults and flt_b = no_faults
        and event_a = JNull and event_b = "JStr (ustr ''again'')" and w_a = ?w and w_b = ?v
        and r_a = "snapshot_ack example_runtime seven_messages"
        and r_b = "snapshot_ack example_runtime seven_messages"] 1 v
    by simp
  from t 1 2 3 4 show ?thesis by simp
qed

section \<open>The table over sequences of invocations\<close>

text \<open>The keys of the table stay distinct.\<close>

lemma store_and_notify_distinct:
  assumes "distinct (map fst (table w))"
  shows "distinct (map fst (table (snd (store_and_notify rt flt ts mid mtext w))))"
proof (cases "flt UPDATE_ITEM")
  case (Some e)
  with assms show ?thesis by (simp add: store_and_notify_update_fails)
next
  case ui: None
  show ?thesis
  proof (cases "flt PUT_ITEM")
    case (Some e)
    with ui assms show ?thesis
      by (simp add: store_and_notify_put_item_fails distinct_update del: AList.update.simps)
  next
    case pi: None
    show ?thesis
    proof (cases "flt PUT_EVENTS")
      case (Some e)
      with ui pi assms show ?thesis
        by (simp add: store_and_notify_put_events_fails distinct_update del: AList.update.simps)
    next
      case None
      with ui pi assms show ?thesis
        by (simp add: store_and_notify_ok distinct_update del: AList.update.simps)
    qed
  qed
qed

lemma api_handler_distinct:
  assumes "distinct (map fst (table w))"
  shows "distinct (map fst (table (snd (api_handler rt flt ts mid event w))))"
proof (cases rule: api_handler_cases[of rt flt ts mid event w])
  case (unchanged r)
  with assms show ?thesis by simp
next
  case (stored mtext r w')
  then show ?thesis
    using store_and_notify_distinct[OF assms, of rt flt ts mid mtext] by simp
next
  case (failed mtext e w')
  then show ?thesis
    using store_and_notify_distinct[OF assms, of rt flt ts mid mtext] by simp
qed

lemma fold_invoke_distinct:
  "distinct (map fst (table w)) \<Longrightarrow> distinct (map fst (table (fold invoke ops w)))"
proof (induction ops arbitrary: w)
  case Nil
  then show ?case by simp
next
  case (Cons i ops)
  have "distinct (map fst (table (invoke i w)))"
    using Cons.prems by (cases i) (simp_all add: api_handler_distinct snapshot_handler_table)
  then show ?case using Cons.IH by simp
qed

subsection \<open>The counter\<close>

lemma api_handler_counter_step:
  "counter_value (table (snd (api_handler rt flt ts mid event w))) = counter_value (table w)
   \<or> counter_value (table (snd (api_handler rt flt ts mid event w))) = Some (counter_or_zero (table w) + 1)"
proof (cases rule: api_handler_cases[of rt flt ts mid event w])
  case (unchanged r)
  then show ?thesis by simp
next
  case (stored mtext r w')
  then show ?thesis
    using store_and_notify_counter[of rt flt ts mid mtext w] by (simp split: if_splits)
next
  case (failed mtext e w')
  then show ?thesis
    using store_and_notify_counter[of rt flt ts mid mtext w] by (simp split: if_splits)
qed

lemma counter_nonneg_step:
  assumes "counter_value t' = counter_value t \<or> counter_value t' = Some (counter_or_zero t + 1)"
    and "0 \<le> counter_or_zero t"
  shows "0 \<le> counter_or_zero t'"
  using assms by (auto simp: counter_or_zero_def)

lemma invoke_counter_nonneg:
  "0 \<le> counter_or_zero (table w) \<Longrightarrow> 0 \<le> counter_or_zero (table (invoke i w))"
proof (cases i)
  case (Post rt flt ts mid event)
  assume "0 \<le> counter_or_zero (table w)"
  with Post show ?thesis
    using counter_nonneg_step[OF api_handler_counter_step[of rt flt ts mid event w]] by simp
next
  case (Snapshot rt flt event)
  assume "0 \<le> counter_or_zero (table w)"
  with Snapshot show ?thesis by (simp add: snapshot_handler_table)
qed

lemma fold_invoke_counter_nonneg:
  "0 \<le> counter_or_zero (table w) \<Longrightarrow> 0 \<le> counter_or_zero (table (fold invoke ops w))"
  by (induction ops arbitrary: w) (simp_all add: invoke_counter_nonneg)

lemma blank_post:
  "http_method (http_event ''POST'' (ustr ''{\"text\": \"   \"}'')) (JStr []) = Inr (JStr (ustr ''POST''))"
  "parse_message_text example_runtime (http_event ''POST'' (ustr ''{\"text\": \"   \"}'')) = Inr []"
  by (simp_all add: http_method_http_event parse_message_text_obj[OF trans[OF parse_body_http_event loads_blank]]
      str_strip_def strip_blank)

lemma api_handler_blank:
  "api_handler example_runtime no_faults example_timestamp example_id
     (http_event ''POST'' (ustr ''{\"text\": \"   \"}'')) empty_world =
   (Inr (response example_runtime 400 (JObj [(ustr ''error'', JStr (ustr ''Message text is required''))])),
    empty_world)"
  by (simp add: api_handler_post blank_post)

lemma api_handler_hello:
  "api_handler example_runtime no_faults example_timestamp example_id
     (http_event ''POST'' (ustr ''{\"text\": \" hello \"}'')) empty_world =
   (Inr (response example_runtime 200 (JObj [(ustr ''success'', JBool True),
                                             (ustr ''messageId'', JStr example_id),
                                             (ustr ''timestamp'', JStr example_timestamp)])),
    empty_world
      \<lparr>table := [((ustr ''METADATA'', ustr ''METADATA''),
                   \<lparr>messageCount = Some 1, text_attr = None, createdAt = None\<rparr>),
                  ((ustr ''MESSAGE'', example_timestamp @ ustr ''#'' @ example_id),
                   \<lparr>messageCount = None, text_attr = Some (ustr ''hello''),
                    createdAt = Some example_timestamp\<rparr>)],
       bus := [posted_entry example_runtime example_id example_timestamp],
       calls := [UpdateItem (ustr ''METADATA'', ustr ''METADATA'') 0 1,
                 PutItem (ustr ''MESSAGE'', example_timestamp @ ustr ''#'' @ example_id)
                   \<lparr>messageCount = None, text_attr = Some (ustr ''hello''),
                    createdAt = Some example_timestamp\<rparr>,
                 PutEvents [posted_entry example_runtime example_id example_timestamp]]\<rparr>)"
  using hello_post
  by (simp add: api_handler_post valid_text strip_hello store_and_notify_ok
      no_faults_def empty_world_def bumped_def message_attrs_def sort_key_of_def MESSAGE_neq_METADATA)

text \<open>
  Claim C8. An invocation of the API handler leaves \<open>messageCount\<close> as it was or sets it
  to one more than it was, a missing counter counting as 0. It is one more after every
  accepted message (a POST answered with status 200), and a rejected request (status 400 or
  405) leaves the whole world as it was. An invocation of the snapshot writer leaves the
  table as it was. So over every sequence of invocations of the two handlers a counter that
  is not negative stays so, and from the empty table it is never negative.
\<close>

theorem counter_invariant:
  "(case api_handler rt flt timestamp message_id event w of (r, w') \<Rightarrow>
      (counter_value (table w') = counter_value (table w)
         \<or> counter_value (table w') = Some (counter_or_zero (table w) + 1))
    \<and> (http_method event (JStr []) = Inr (JStr (ustr ''POST'')) \<and> status_of r = Some 200
         \<longrightarrow> counter_value (table w') = Some (counter_or_zero (table w) + 1))
    \<and> (status_of r = Some 400 \<or> status_of r = Some 405 \<longrightarrow> w' = w))
   \<and> table (snd (snapshot_handler rt' flt' event' w)) = table w
   \<and> (0 \<le> counter_or_zero (table w) \<longrightarrow> 0 \<le> counter_or_zero (table (fold invoke ops w)))
   \<and> 0 \<le> counter_or_zero (table (fold invoke ops empty_world))"
proof (intro conjI)
  show "case api_handler rt flt timestamp message_id event w of (r, w') \<Rightarrow>
      (counter_value (table w') = counter_value (table w)
         \<or> counter_value (table w') = Some (counter_or_zero (table w) + 1))
    \<and> (http_method event (JStr []) = Inr (JStr (ustr ''POST'')) \<and> status_of r = Some 200
         \<longrightarrow> counter_value (table w') = Some (counter_or_zero (table w) + 1))
    \<and> (status_of r = Some 400 \<or> status_of r = Some 405 \<longrightarrow> w' = w)"
  proof (cases rule: api_handler_cases[of rt flt timestamp message_id event w])
    case (unchanged r)
    then show ?thesis by auto
  next
    case (stored mtext r w')
    have "flt UPDATE_ITEM = None"
      using store_and_notify_success[of rt flt timestamp message_id mtext w r] stored(2) by simp
    moreover have "status_of (Inr r) = Some 200"
      using store_and_notify_Inr_status[of rt flt timestamp message_id mtext w r] stored(2) by simp
    ultimately show ?thesis
      using stored store_and_notify_counter[of rt flt timestamp message_id mtext w] by simp
  next
    case (failed mtext e w')
    then show ?thesis
      using store_and_notify_counter[of rt flt timestamp message_id mtext w]
      by (cases "flt UPDATE_ITEM") (auto simp add: status_of_response)
  qed
  show "table (snd (snapshot_handler rt' flt' event' w)) = table w"
    by (rule snapshot_handler_table)
  show "0 \<le> counter_or_zero (table w) \<longrightarrow> 0 \<le> counter_or_zero (table (fold invoke ops w))"
    by (simp add: fold_invoke_counter_nonneg)
  show "0 \<le> counter_or_zero (table (fold invoke ops empty_world))"
    by (rule fold_invoke_counter_nonneg) (simp add: empty_world_simps empty_table)
qed

theorem counter_invariant_witness:
  "counter_value (table (snd (api_handler example_runtime no_faults example_timestamp example_id
       (http_event ''POST'' (ustr ''{\"text\": \" hello \"}'')) empty_world))) = Some 1
   \<and> snd (api_handler example_runtime no_faults example_timestamp example_id
       (http_event ''POST'' (ustr ''{\"text\": \"   \"}'')) empty_world) = empty_world
   \<and> table (snd (snapshot_handler example_runtime no_faults JNull (empty_world\<lparr>table := seven_messages\<rparr>)))
       = seven_messages
   \<and> 0 \<le> counter_or_zero (table (fold invoke
        [Post example_runtime no_faults example_timestamp example_id
           (http_event ''POST'' (ustr ''{\"text\": \" hello \"}'')),
         Post example_runtime no_faults example_timestamp example_id
           (http_event ''POST'' (ustr ''{\"text\": \"   \"}'')),
         Snapshot example_runtime no_faults JNull] empty_world))"
proof -
  have 1: "counter_value (table (snd (api_handler example_runtime no_faults example_timestamp example_id
       (http_event ''POST'' (ustr ''{\"text\": \" hello \"}'')) empty_world))) = Some 1"
    using counter_invariant[where rt = example_runtime and flt = no_faults and timestamp = example_timestamp
        and message_id = example_id and event = "http_event ''POST'' (ustr ''{\"text\": \" hello \"}'')"
        and w = empty_world] hello_post(1)
    by (simp add: api_handler_hello status_of_response empty_world_simps empty_table)
  have 2: "snd (api_handler example_runtime no_faults example_timestamp example_id
       (http_event ''POST'' (ustr ''{\"text\": \"   \"}'')) empty_world) = empty_world"
    using counter_invariant[where rt = example_runtime and flt = no_faults and timestamp = example_timestamp
        and message_id = example_id and event = "http_event ''POST'' (ustr ''{\"text\": \"   \"}'')"
        and w = empty_world]
    by (simp add: api_handler_blank status_of_response)
  have 3: "table (snd (snapshot_handler example_runtime no_faults JNull (empty_world\<lparr>table := seven_messages\<rparr>)))
       = seven_messages"
    using counter_invariant[where rt' = example_runtime and flt' = no_faults and event' = JNull
        and w = "empty_world\<lparr>table := seven_messages\<rparr>"]
    by simp
  have 4: "0 \<le> counter_or_zero (table (fold invoke
        [Post example_runtime no_faults example_timestamp example_id
           (http_event ''POST'' (ustr ''{\"text\": \" hello \"}'')),
         Post example_runtime no_faults example_timestamp example_id
           (http_event ''POST'' (ustr ''{\"text\": \"   \"}'')),
         Snapshot example_runtime no_faults JNull] empty_world))"
    using counter_invariant[where w = empty_world] by blast
  from 1 2 3 4 show ?thesis by simp
qed

end
